theory Spec2Isabelle
  imports Main "HOL-Library.AList"
begin

section \<open>JavaScript values\<close>

text \<open>
  The hyperscript builder \<open>h\<close> (hyper-script.js) and the \<open>Renderer\<close> (renderer.js) are
  dynamically typed: every parameter can hold any JavaScript value. The values modelled
  are plain data: \<open>undefined\<close>, \<open>null\<close>, booleans, integer numbers, strings, arrays
  and plain objects. An object is its list of own data properties in insertion order; an
  array is its dense list of elements together with the named properties that were
  assigned to it (the source can assign \<open>className\<close> to an array that reaches the
  properties position). Prototypes are the built-in ones and are not shadowed; functions,
  symbols, accessors, frozen objects and non-integer numbers are outside the model.
  Strings are lists of 8-bit characters.

  Objects are passed by reference in the source and by value here. Where the source
  mutates an object in place, the function of the model returns the state of that object
  after the call next to its result.
\<close>

datatype error = TypeError

datatype jsval =
    Undefined
  | Null
  | Bool bool
  | Num int
  | Str string
  | Arr "jsval list" "(string \<times> jsval) list"
  | Obj "(string \<times> jsval) list"

text \<open>\<open>typeof v\<close>.\<close>

fun typeof :: "jsval \<Rightarrow> string" where
  "typeof Undefined = ''undefined''"
| "typeof Null = ''object''"
| "typeof (Bool b) = ''boolean''"
| "typeof (Num n) = ''number''"
| "typeof (Str s) = ''string''"
| "typeof (Arr es ps) = ''object''"
| "typeof (Obj ps) = ''object''"

text \<open>ToBoolean: the values that pass \<open>if (v)\<close>, \<open>v || d\<close> and \<open>v && e\<close>.\<close>

fun truthy :: "jsval \<Rightarrow> bool" where
  "truthy Undefined = False"
| "truthy Null = False"
| "truthy (Bool b) = b"
| "truthy (Num n) = (n \<noteq> 0)"
| "truthy (Str s) = (s \<noteq> [])"
| "truthy (Arr es ps) = True"
| "truthy (Obj ps) = True"

text \<open>\<open>v != null\<close> is false exactly for \<open>null\<close> and \<open>undefined\<close>.\<close>

fun not_nullish :: "jsval \<Rightarrow> bool" where
  "not_nullish Undefined = False"
| "not_nullish Null = False"
| "not_nullish v = True"

text \<open>
  \<open>key in target\<close> for the property names the source tests (\<open>tagName\<close>,
  \<open>properties\<close>, \<open>id\<close>, \<open>className\<close>, \<open>class\<close>), none of which is inherited from
  \<open>Object.prototype\<close> or \<open>Array.prototype\<close>. The operator raises a TypeError when its
  right operand is not an object.
\<close>

fun js_in :: "string \<Rightarrow> jsval \<Rightarrow> error + bool" where
  "js_in k (Obj ps) = Inr (k \<in> fst ` set ps)"
| "js_in k (Arr es ps) = Inr (k \<in> fst ` set ps)"
| "js_in k v = Inl TypeError"

text \<open>
  \<open>target.key\<close> for the names the source reads (none of them is an array index or
  inherited): a missing property reads as \<open>undefined\<close>, a primitive has none of them,
  and reading a property of \<open>undefined\<close> or \<open>null\<close> raises a TypeError.
\<close>

fun get_prop :: "jsval \<Rightarrow> string \<Rightarrow> error + jsval" where
  "get_prop Undefined k = Inl TypeError"
| "get_prop Null k = Inl TypeError"
| "get_prop (Obj ps) k = Inr (case map_of ps k of None \<Rightarrow> Undefined | Some v \<Rightarrow> v)"
| "get_prop (Arr es ps) k = Inr (case map_of ps k of None \<Rightarrow> Undefined | Some v \<Rightarrow> v)"
| "get_prop v k = Inr Undefined"

text \<open>
  \<open>target.key = v\<close> in strict mode (both files start with \<open>"use strict"\<close>): an existing
  key keeps its place, a new key is added last; assigning to a property of a primitive
  raises a TypeError.
\<close>

fun set_prop :: "jsval \<Rightarrow> string \<Rightarrow> jsval \<Rightarrow> error + jsval" where
  "set_prop (Obj ps) k v = Inr (Obj (AList.update k v ps))"
| "set_prop (Arr es ps) k v = Inr (Arr es (AList.update k v ps))"
| "set_prop t k v = Inl TypeError"

text \<open>\<open>delete target.key\<close>.\<close>

fun delete_prop :: "jsval \<Rightarrow> string \<Rightarrow> error + jsval" where
  "delete_prop Undefined k = Inl TypeError"
| "delete_prop Null k = Inl TypeError"
| "delete_prop (Obj ps) k = Inr (Obj (AList.delete k ps))"
| "delete_prop (Arr es ps) k = Inr (Arr es (AList.delete k ps))"
| "delete_prop v k = Inr v"

subsection \<open>Conversion to strings\<close>

definition digit_char :: "nat \<Rightarrow> char" where
  "digit_char d = (''0123456789'' ! (d mod 10))"

fun string_of_nat :: "nat \<Rightarrow> string" where
  "string_of_nat n =
     (if n < 10 then [digit_char n] else string_of_nat (n div 10) @ [digit_char (n mod 10)])"

definition string_of_int :: "int \<Rightarrow> string" where
  "string_of_int i = (if i < 0 then CHR ''-'' # string_of_nat (nat (- i)) else string_of_nat (nat i))"

fun join_strings :: "string \<Rightarrow> string list \<Rightarrow> string" where
  "join_strings sep [] = []"
| "join_strings sep [s] = s"
| "join_strings sep (s # t # ss) = s @ sep @ join_strings sep (t # ss)"

text \<open>
  ToString, as \<open>+\<close> with a string operand and \<open>Array.prototype.join\<close> apply it: an
  array converts to its elements joined by commas, where \<open>null\<close> and \<open>undefined\<close>
  elements give the empty string; a plain object converts to \<open>[object Object]\<close>.
\<close>

fun to_string :: "jsval \<Rightarrow> string" where
  "to_string Undefined = ''undefined''"
| "to_string Null = ''null''"
| "to_string (Bool b) = (if b then ''true'' else ''false'')"
| "to_string (Num n) = string_of_int n"
| "to_string (Str s) = s"
| "to_string (Arr es ps) =
     join_strings '','' (map (\<lambda>e. if not_nullish e then to_string e else []) es)"
| "to_string (Obj ps) = ''[object Object]''"

text \<open>\<open>array.join(sep)\<close>.\<close>

definition js_join :: "string \<Rightarrow> jsval list \<Rightarrow> string" where
  "js_join sep es = join_strings sep (map (\<lambda>e. if not_nullish e then to_string e else []) es)"

text \<open>
  \<open>s.toUpperCase()\<close>. It is only applied to tag names, which are \<open>div\<close> or a token of
  word characters, so the letters \<open>a\<close> to \<open>z\<close> are the only ones it can meet.
\<close>

definition upper_char :: "char \<Rightarrow> char" where
  "upper_char c =
     (case map_of (zip ''abcdefghijklmnopqrstuvwxyz'' ''ABCDEFGHIJKLMNOPQRSTUVWXYZ'') c of
        None \<Rightarrow> c | Some u \<Rightarrow> u)"

definition toUpperCase :: "string \<Rightarrow> string" where
  "toUpperCase s = map upper_char s"

section \<open>The builder: hyper-script.js\<close>

definition SVG_NS :: string where
  "SVG_NS = ''http://www.w3.org/2000/svg''"

subsection \<open>Selector tokens\<close>

text \<open>
  \<open>selector.match(/[\w+_-]+|[#.][^#.]+/g)\<close>: the matches are found from left to right,
  each as long as possible, the first alternative first. \<open>word_char\<close> is the class
  \<open>[\w+_-]\<close>, \<open>hash_dot\<close> the class \<open>[#.]\<close>.
\<close>

definition word_char :: "char \<Rightarrow> bool" where
  "word_char c =
     (c \<in> set ''abcdefghijklmnopqrstuvwxyzABCDEFGHIJKLMNOPQRSTUVWXYZ0123456789_+-'')"

definition hash_dot :: "char \<Rightarrow> bool" where
  "hash_dot c = (c = CHR ''#'' \<or> c = CHR ''.'')"

function match_all :: "string \<Rightarrow> string list" where
  "match_all [] = []"
| "match_all (c # cs) =
     (if word_char c then
        takeWhile word_char (c # cs) # match_all (dropWhile word_char (c # cs))
      else if hash_dot c \<and> takeWhile (\<lambda>x. \<not> hash_dot x) cs \<noteq> [] then
        (c # takeWhile (\<lambda>x. \<not> hash_dot x) cs) # match_all (dropWhile (\<lambda>x. \<not> hash_dot x) cs)
      else match_all cs)"
  by pat_completeness auto
termination
  by (relation "measure length") (auto simp: less_Suc_eq_le length_dropWhile_le)

text \<open>
  \<open>matchSelector\<close>: a falsy selector gives the empty array; a string gives the array of
  its matches, or \<open>null\<close> (here \<open>None\<close>) when there is no match; any other truthy
  value has no \<open>match\<close> method, and calling it raises a TypeError.
\<close>

definition matchSelector :: "jsval \<Rightarrow> error + string list option" where
  "matchSelector selector =
     (if truthy selector then
        (case selector of
           Str s \<Rightarrow> (case match_all s of [] \<Rightarrow> Inr None | ts \<Rightarrow> Inr (Some ts))
         | _ \<Rightarrow> Inl TypeError)
      else Inr (Some []))"

subsection \<open>Sequencing of steps that can raise\<close>

definition bind :: "error + 'a \<Rightarrow> ('a \<Rightarrow> error + 'b) \<Rightarrow> error + 'b" where
  "bind m f = (case m of Inl e \<Rightarrow> Inl e | Inr x \<Rightarrow> f x)"

subsection \<open>createVNode\<close>

text \<open>
  The loop over the tokens (lines 68 to 82) works on the local variables \<open>id\<close>,
  \<open>classes\<close> and \<open>tagName\<close> and on the object \<open>properties\<close>. \<open>part[0]\<close> is the first
  character as a string, \<open>part.substr(n)\<close> drops \<open>n\<close> characters.
\<close>

type_synonym loop_state = "string \<times> string list \<times> string \<times> jsval"

definition startsWith :: "string \<Rightarrow> string \<Rightarrow> bool" where
  "startsWith part pre = (take (length pre) part = pre)"

definition visit_part :: "string \<Rightarrow> loop_state \<Rightarrow> error + loop_state" where
  "visit_part part st =
     (case st of (id', classes, tagName, properties) \<Rightarrow>
        if take 1 part = ''#'' then Inr (drop 1 part, classes, tagName, properties)
        else if take 1 part = ''.'' then Inr (id', classes @ [drop 1 part], tagName, properties)
        else if startsWith part ''svg:'' then
          bind (set_prop properties ''xmlns'' (Str SVG_NS))
            (\<lambda>p. Inr (id', classes, drop 4 part, p))
        else
          bind (if part = ''svg'' then set_prop properties ''xmlns'' (Str SVG_NS)
                else Inr properties)
            (\<lambda>p. Inr (id', classes, part, p)))"

fun for_parts :: "string list \<Rightarrow> loop_state \<Rightarrow> error + loop_state" where
  "for_parts [] st = Inr st"
| "for_parts (part # parts) st = bind (visit_part part st) (for_parts parts)"

text \<open>Lines 84 to 86: \<open>if (id && !("id" in properties)) properties.id = id\<close>.\<close>

definition default_id :: "string \<Rightarrow> jsval \<Rightarrow> error + jsval" where
  "default_id id' properties =
     (if id' \<noteq> [] then
        bind (js_in ''id'' properties)
          (\<lambda>present. if \<not> present then set_prop properties ''id'' (Str id') else Inr properties)
      else Inr properties)"

text \<open>Lines 88 to 90: \<open>if (!properties.xmlns) tagName = tagName.toUpperCase()\<close>.\<close>

definition tag_case :: "string \<Rightarrow> jsval \<Rightarrow> error + string" where
  "tag_case tagName properties =
     bind (get_prop properties ''xmlns'')
       (\<lambda>xmlns. Inr (if \<not> truthy xmlns then toUpperCase tagName else tagName))"

text \<open>
  Lines 92 to 94: \<open>if ("className" in properties) classes.push(properties.className)\<close>.
  From here on \<open>classes\<close> can hold a value that is not a string.
\<close>

definition push_className :: "string list \<Rightarrow> jsval \<Rightarrow> error + jsval list" where
  "push_className classes properties =
     bind (js_in ''className'' properties)
       (\<lambda>present. if present then
            bind (get_prop properties ''className'') (\<lambda>c. Inr (map Str classes @ [c]))
          else Inr (map Str classes))"

text \<open>Lines 96 to 103.\<close>

definition write_className :: "jsval list \<Rightarrow> jsval \<Rightarrow> error + jsval" where
  "write_className classes properties =
     (if length classes > 0 then
        bind (bind (js_in ''class'' properties)
                (\<lambda>present. if present then
                     bind (get_prop properties ''class'')
                       (\<lambda>c. bind (set_prop properties ''className'' c)
                          (\<lambda>p. delete_prop p ''class''))
                   else Inr properties))
          (\<lambda>p. set_prop p ''className'' (Str (js_join '' '' classes)))
      else Inr properties)"

text \<open>
  Line 106: \<open>[].concat(...args).filter(v => v != null)\<close>. \<open>concat\<close> spreads each
  argument that is an array and appends any other argument as it is.
\<close>

fun concat_spread :: "jsval \<Rightarrow> jsval list" where
  "concat_spread (Arr es ps) = es"
| "concat_spread v = [v]"

definition children_of :: "jsval list \<Rightarrow> jsval list" where
  "children_of args = filter not_nullish (concat (map concat_spread args))"

text \<open>The object literal \<open>{ tagName, properties, children }\<close> of line 107.\<close>

definition vnode :: "string \<Rightarrow> jsval \<Rightarrow> jsval list \<Rightarrow> jsval" where
  "vnode tagName properties children =
     Obj [(''tagName'', Str tagName), (''properties'', properties),
          (''children'', Arr children [])]"

text \<open>
  \<open>createVNode(selector, properties, ...args)\<close>. Iterating over \<open>null\<close>, the result of
  a \<open>match\<close> that found nothing, raises a TypeError. The function returns the node and
  the state in which it leaves the caller's \<open>properties\<close> argument: a truthy argument is
  the very object that is mutated and stored in the node, a falsy one is replaced by a
  fresh \<open>{}\<close> and is not touched.
\<close>

definition createVNode :: "jsval \<Rightarrow> jsval \<Rightarrow> jsval list \<Rightarrow> error + (jsval \<times> jsval)" where
  "createVNode selector properties args =
     bind (matchSelector selector) (\<lambda>parts.
     let properties0 = (if truthy properties then properties else Obj []) in
     bind (case parts of None \<Rightarrow> Inl TypeError
           | Some ps \<Rightarrow> for_parts ps ([], [], ''div'', properties0)) (\<lambda>st.
     case st of (id', classes, tagName, properties1) \<Rightarrow>
     bind (default_id id' properties1) (\<lambda>properties2.
     bind (tag_case tagName properties2) (\<lambda>tagName'.
     bind (push_className classes properties2) (\<lambda>classes'.
     bind (write_className classes' properties2) (\<lambda>properties3.
     Inr (vnode tagName' properties3 (children_of args),
          if truthy properties then properties3 else properties)))))))"

subsection \<open>h\<close>

text \<open>\<open>isVNode\<close>: \<open>"tagName" in target && "properties" in target\<close>.\<close>

definition isVNode :: "jsval \<Rightarrow> error + bool" where
  "isVNode target =
     bind (js_in ''tagName'' target)
       (\<lambda>t. if t then js_in ''properties'' target else Inr False)"

text \<open>\<open>Array.isArray(target)\<close>.\<close>

fun isArray :: "jsval \<Rightarrow> bool" where
  "isArray (Arr es ps) = True"
| "isArray v = False"

text \<open>\<open>rest[0]\<close>, which is \<open>undefined\<close> when no further argument was passed.\<close>

definition rest0 :: "jsval list \<Rightarrow> jsval" where
  "rest0 rest = (case rest of [] \<Rightarrow> Undefined | r # rs \<Rightarrow> r)"

text \<open>
  \<open>".#".includes(first[0])\<close>: \<open>first[0]\<close> is the first character as a string, or
  \<open>undefined\<close> for the empty string, which \<open>includes\<close> converts to a string that does
  not occur in \<open>".#"\<close>.
\<close>

definition isClassOrId :: "string \<Rightarrow> bool" where
  "isClassOrId first = (take 1 first = ''.'' \<or> take 1 first = ''#'')"

text \<open>
  The result of \<open>h(selector, first, ...rest)\<close> is the node together with the states of
  the caller's \<open>first\<close> and \<open>rest\<close> arguments after the call. A call that passes a fresh
  \<open>{}\<close> to \<open>createVNode\<close> leaves them as they were (\<open>fresh\<close>); the call
  \<open>createVNode(selector + first, ...rest)\<close> hands \<open>rest[0]\<close> over as \<open>properties\<close>
  (\<open>forward_rest\<close>), and the last call of the function hands \<open>first\<close> over.
  An omitted argument is \<open>undefined\<close>. Since values are passed and not references,
  an object that the caller passes both in the properties position and as or inside
  another argument is two equal values here: the other argument and the child built from
  it show the state before the call, where in the code they are the updated object.
\<close>

type_synonym h_result = "jsval \<times> jsval \<times> jsval list"

definition fresh :: "jsval \<Rightarrow> jsval list \<Rightarrow> error + (jsval \<times> jsval) \<Rightarrow> error + h_result" where
  "fresh first rest r = bind r (\<lambda>(v, p). Inr (v, first, rest))"

definition forward_rest :: "jsval \<Rightarrow> jsval \<Rightarrow> jsval list \<Rightarrow> error + h_result" where
  "forward_rest selector first rest =
     bind (createVNode selector (rest0 rest) (drop 1 rest))
       (\<lambda>(v, p). Inr (v, first, (case rest of [] \<Rightarrow> [] | r # rs \<Rightarrow> p # rs)))"

definition h :: "jsval \<Rightarrow> jsval \<Rightarrow> jsval list \<Rightarrow> error + h_result" where
  "h selector first rest =
     (if typeof first = ''string'' then
        bind (if truthy (rest0 rest) then isVNode (rest0 rest) else Inr False) (\<lambda>child.
        if child then
          if isClassOrId (to_string first) then
            fresh first rest
              (createVNode (Str (to_string selector @ to_string first)) (Obj []) rest)
          else fresh first rest (createVNode selector (Obj []) (first # rest))
        else if isClassOrId (to_string first) then
          forward_rest (Str (to_string selector @ to_string first)) first rest
        else fresh first rest (createVNode selector (Obj []) (first # rest)))
      else if typeof first = ''object'' \<and> first = Null then
        fresh first rest (createVNode selector (Obj []) rest)
      else if typeof first = ''object'' \<and> isVNode first = Inr True then
        fresh first rest (createVNode selector (Obj []) (first # rest))
      else if typeof first = ''object'' \<and> isArray first then
        fresh first rest (createVNode selector (Obj []) (concat_spread first @ rest))
      else
        bind (createVNode selector first rest)
          (\<lambda>(v, p). Inr (v, p, rest)))"

subsection \<open>The tag factories\<close>

definition SVG_TAG_NAMES :: "string list" where
  "SVG_TAG_NAMES =
     [''altGlyph'', ''altGlyphDef'', ''altGlyphItem'', ''animate'', ''animateColor'',
      ''animateMotion'', ''animateTransform'', ''circle'', ''clipPath'', ''colorProfile'',
      ''cursor'', ''defs'', ''desc'', ''ellipse'', ''feBlend'', ''feColorMatrix'',
      ''feComponentTransfer'', ''feComposite'', ''feConvolveMatrix'', ''feDiffuseLighting'',
      ''feDisplacementMap'', ''feDistantLight'', ''feFlood'', ''feFuncA'', ''feFuncB'',
      ''feFuncG'', ''feFuncR'', ''feGaussianBlur'', ''feImage'', ''feMerge'', ''feMergeNode'',
      ''feMorphology'', ''feOffset'', ''fePointLight'', ''feSpecularLighting'',
      ''feSpotlight'', ''feTile'', ''feTurbulence'', ''filter'', ''font'', ''fontFace'',
      ''fontFaceFormat'', ''fontFaceName'', ''fontFaceSrc'', ''fontFaceUri'',
      ''foreignObject'', ''g'', ''glyph'', ''glyphRef'', ''hkern'', ''image'', ''line'',
      ''linearGradient'', ''marker'', ''mask'', ''metadata'', ''missingGlyph'', ''mpath'',
      ''path'', ''pattern'', ''polygon'', ''polyline'', ''radialGradient'', ''rect'', ''script'',
      ''set'', ''stop'', ''style'', ''switch'', ''symbol'', ''text'', ''textPath'', ''title'',
      ''tref'', ''tspan'', ''use'', ''view'', ''vkern'']"

definition HTML_TAG_NAMES :: "string list" where
  "HTML_TAG_NAMES =
     [''a'', ''abbr'', ''acronym'', ''address'', ''applet'', ''area'', ''article'', ''aside'',
      ''audio'', ''b'', ''base'', ''basefont'', ''bdi'', ''bdo'', ''bgsound'', ''big'', ''blink'',
      ''blockquote'', ''body'', ''br'', ''button'', ''canvas'', ''caption'', ''center'', ''cite'',
      ''code'', ''col'', ''colgroup'', ''command'', ''content'', ''data'', ''datalist'', ''dd'',
      ''del'', ''details'', ''dfn'', ''dialog'', ''dir'', ''div'', ''dl'', ''dt'', ''element'',
      ''em'', ''embed'', ''fieldset'', ''figcaption'', ''figure'', ''font'', ''footer'', ''form'',
      ''frame'', ''frameset'', ''h1'', ''h2'', ''h3'', ''h4'', ''h5'', ''h6'', ''head'',
      ''header'', ''hgroup'', ''hr'', ''html'', ''i'', ''iframe'', ''image'', ''img'', ''input'',
      ''ins'', ''isindex'', ''kbd'', ''keygen'', ''label'', ''legend'', ''li'', ''link'',
      ''listing'', ''main'', ''map'', ''mark'', ''marquee'', ''math'', ''menu'', ''menuitem'',
      ''meta'', ''meter'', ''multicol'', ''nav'', ''nextid'', ''nobr'', ''noembed'', ''noframes'',
      ''noscript'', ''object'', ''ol'', ''optgroup'', ''option'', ''output'', ''p'', ''param'',
      ''picture'', ''plaintext'', ''pre'', ''progress'', ''q'', ''rb'', ''rbc'', ''rp'', ''rt'',
      ''rtc'', ''ruby'', ''s'', ''samp'', ''script'', ''section'', ''select'', ''shadow'',
      ''slot'', ''small'', ''source'', ''spacer'', ''span'', ''strike'', ''strong'', ''style'',
      ''sub'', ''summary'', ''sup'', ''svg'', ''table'', ''tbody'', ''td'', ''template'',
      ''textarea'', ''tfoot'', ''th'', ''thead'', ''time'', ''title'', ''tr'', ''track'', ''tt'',
      ''u'', ''ul'', ''var'', ''video'', ''wbr'', ''xmp'']"

text \<open>
  \<open>DOM\<close> starts as \<open>{}\<close>; the first \<open>forEach\<close> (lines 141 to 143) stores a factory
  under every HTML tag name, the second (lines 145 to 147) stores one under every SVG tag
  name, replacing what the key held. A factory is the closure
  \<open>(first, ...rest) => h(tagName, first, ...rest)\<close>, for SVG with \<open>"svg:" + tagName\<close>.
\<close>

type_synonym factory = "jsval \<Rightarrow> jsval list \<Rightarrow> error + h_result"

definition DOM :: "string \<rightharpoonup> factory" where
  "DOM =
     fold (\<lambda>tagName dom. dom(tagName \<mapsto> (\<lambda>first rest. h (Str (''svg:'' @ tagName)) first rest)))
       SVG_TAG_NAMES
       (fold (\<lambda>tagName dom. dom(tagName \<mapsto> (\<lambda>first rest. h (Str tagName) first rest)))
          HTML_TAG_NAMES Map.empty)"

text \<open>The call \<open>DOM.t(first, ...rest)\<close>; calling a missing entry raises a TypeError.\<close>

definition call_DOM :: "string \<Rightarrow> jsval \<Rightarrow> jsval list \<Rightarrow> error + h_result" where
  "call_DOM t first rest = (case DOM t of None \<Rightarrow> Inl TypeError | Some f \<Rightarrow> f first rest)"

section \<open>The renderer: renderer.js\<close>

subsection \<open>A stub document\<close>

text \<open>
  The document is a collaborator of the renderer. The stub used here records what it is
  asked: an element keeps the namespace and the tag it was created with, the attributes
  set on it in order, and the children appended to it.
\<close>

datatype dom_node =
    TextNode string
  | Element "jsval option" jsval "(string \<times> jsval) list" "dom_node list"

definition createTextNode :: "string \<Rightarrow> dom_node" where
  "createTextNode s = TextNode s"

definition createElement :: "jsval \<Rightarrow> dom_node" where
  "createElement tag = Element None tag [] []"

definition createElementNS :: "jsval \<Rightarrow> jsval \<Rightarrow> dom_node" where
  "createElementNS ns tag = Element (Some ns) tag [] []"

fun setAttribute :: "string \<Rightarrow> jsval \<Rightarrow> dom_node \<Rightarrow> dom_node" where
  "setAttribute k v (Element ns tag attrs cs) = Element ns tag (AList.update k v attrs) cs"
| "setAttribute k v n = n"

fun appendChild :: "dom_node \<Rightarrow> dom_node \<Rightarrow> dom_node" where
  "appendChild c (Element ns tag attrs cs) = Element ns tag attrs (cs @ [c])"
| "appendChild c n = n"

subsection \<open>Formatters\<close>

text \<open>
  \<open>Object.keys(value)\<close> paired with \<open>value[k]\<close> for each key: the own properties in
  order, for an array and a string the indices first; a number or a boolean has none.
  \<open>Object.keys\<close> raises a TypeError on \<open>undefined\<close> and \<open>null\<close>.
\<close>

fun entries_of :: "jsval \<Rightarrow> (string \<times> jsval) list" where
  "entries_of (Obj ps) = ps"
| "entries_of (Arr es ps) = zip (map string_of_nat [0..<length es]) es @ ps"
| "entries_of (Str s) = zip (map string_of_nat [0..<length s]) (map (\<lambda>c. Str [c]) s)"
| "entries_of v = []"

definition own_entries :: "jsval \<Rightarrow> error + (string \<times> jsval) list" where
  "own_entries v = (if not_nullish v then Inr (entries_of v) else Inl TypeError)"

text \<open>
  \<open>defaultStyleFormatter\<close>: an object becomes the string of its \<open>key:value\<close> pairs
  joined by \<open>;\<close>, any other value is returned as it is.
\<close>

definition defaultStyleFormatter :: "jsval \<Rightarrow> jsval" where
  "defaultStyleFormatter v =
     (if typeof v = ''object'' \<and> v \<noteq> Null then
        Str (join_strings '';'' (map (\<lambda>(k, x). k @ '':'' @ to_string x) (entries_of v)))
      else v)"

text \<open>
  The formatters of a renderer, by attribute name (names inherited from
  \<open>Object.prototype\<close> are not looked up in the model). The constructor registers the
  style formatter.
\<close>

type_synonym formatters = "string \<rightharpoonup> (jsval \<Rightarrow> jsval)"

definition setFormatterFor :: "string \<Rightarrow> (jsval \<Rightarrow> jsval) \<Rightarrow> formatters \<Rightarrow> formatters" where
  "setFormatterFor name formatter fs = fs(name \<mapsto> formatter)"

definition new_Renderer :: formatters where
  "new_Renderer = setFormatterFor ''style'' defaultStyleFormatter Map.empty"

subsection \<open>render\<close>

fun map_result :: "('a \<Rightarrow> error + 'b) \<Rightarrow> 'a list \<Rightarrow> error + 'b list" where
  "map_result f [] = Inr []"
| "map_result f (x # xs) = bind (f x) (\<lambda>y. bind (map_result f xs) (\<lambda>ys. Inr (y # ys)))"

lemma bind_cong [fundef_cong]:
  "m = m' \<Longrightarrow> (\<And>x. m' = Inr x \<Longrightarrow> f x = g x) \<Longrightarrow> bind m f = bind m' g"
  by (auto simp: bind_def split: sum.splits)

lemma map_result_cong [fundef_cong]:
  "xs = ys \<Longrightarrow> (\<And>x. x \<in> set ys \<Longrightarrow> f x = g x) \<Longrightarrow> map_result f xs = map_result g ys"
  by (induction ys arbitrary: xs) (auto cong: bind_cong)

lemma size_map_of:
  "map_of ps k = Some v \<Longrightarrow> size (v::jsval) < size_list (size_prod (\<lambda>x. 0) size) ps"
  by (induction ps) (auto split: if_splits)

lemma size_elem: "x \<in> set es \<Longrightarrow> size (x::jsval) < size_list size es"
  by (induction es) auto

lemma size_children:
  assumes "get_prop v k = Inr (Arr es ps)" and "x \<in> set es"
  shows "size x < size v"
proof -
  have a: "size x < size (Arr es ps)"
    using size_elem [OF assms(2)] by simp
  have b: "size (Arr es ps) < size v"
  proof (cases v)
    case (Arr es' ps')
    then have "map_of ps' k = Some (Arr es ps)"
      using assms(1) by (simp split: option.splits)
    from size_map_of [OF this] show ?thesis using Arr by simp
  next
    case (Obj ps')
    then have "map_of ps' k = Some (Arr es ps)"
      using assms(1) by (simp split: option.splits)
    from size_map_of [OF this] show ?thesis using Obj by simp
  qed (use assms(1) in simp_all)
  from a b show ?thesis by simp
qed

text \<open>
  \<open>render(vtree)\<close> (lines 181 to 220 of the source listing): a string becomes a text
  node; otherwise the element is created from \<open>vtree.nodeName\<close>, in a namespace when
  \<open>vtree.attributes.xmlns\<close> is truthy; every own property of \<open>vtree.properties\<close>
  other than \<open>xmlns\<close> is set as an attribute, through its formatter if one is
  registered; the elements of \<open>vtree.children || []\<close> are rendered and appended. A truthy
  \<open>children\<close> that is not an array has no \<open>forEach\<close>. The first error ends the call.
\<close>

function render :: "formatters \<Rightarrow> jsval \<Rightarrow> error + dom_node" where
  "render fs vtree =
     (if typeof vtree = ''string'' then Inr (createTextNode (to_string vtree))
      else
        bind (get_prop vtree ''nodeName'') (\<lambda>nodeName.
        bind (get_prop vtree ''attributes'') (\<lambda>attributes.
        bind (get_prop attributes ''xmlns'') (\<lambda>xmlns.
        bind (if truthy xmlns then
                bind (get_prop vtree ''properties'') (\<lambda>p.
                bind (get_prop p ''xmlns'') (\<lambda>ns. Inr (createElementNS ns nodeName)))
              else Inr (createElement nodeName)) (\<lambda>n.
        bind (get_prop vtree ''properties'') (\<lambda>a.
        bind (own_entries a) (\<lambda>entries.
        bind (get_prop vtree ''children'') (\<lambda>children.
        bind (if truthy children then
                (case children of Arr es ps \<Rightarrow> map_result (render fs) es
                 | _ \<Rightarrow> Inl TypeError)
              else Inr []) (\<lambda>rendered.
        Inr (fold (\<lambda>c n. appendChild c n) rendered
               (fold (\<lambda>(k, v) n. if k = ''xmlns'' then n
                       else setAttribute k (case fs k of None \<Rightarrow> v | Some f \<Rightarrow> f v) n)
                  entries n)))))))))))"
  by pat_completeness auto
termination
  by (relation "measure (\<lambda>(fs, v). size v)") (auto dest: size_children)

section \<open>The specification's words\<close>

text \<open>
  The terms in which the specification describes a call of \<open>h\<close>, written down from its
  text (sections 3 and 4.1): the tokens of a selector and what each contributes, what
  counts as a node, and which arguments of each overload are the selector extension, the
  properties and the children. The properties of the code are stated in these terms.
\<close>

text \<open>The tokens of a selector; a selector that is not a string has none.\<close>

definition tokens :: "jsval \<Rightarrow> string list" where
  "tokens selector = (case selector of Str s \<Rightarrow> match_all s | _ \<Rightarrow> [])"

definition is_id :: "string \<Rightarrow> bool" where
  "is_id part = (take 1 part = ''#'')"

definition is_class :: "string \<Rightarrow> bool" where
  "is_class part = (take 1 part = ''.'')"

definition is_tag :: "string \<Rightarrow> bool" where
  "is_tag part = (\<not> is_id part \<and> \<not> is_class part)"

text \<open>
  A token prefixed \<open>svg:\<close> sets the tag to the remainder and forces the SVG namespace; a
  bare \<open>svg\<close> token forces the namespace and keeps the tag.
\<close>

definition tag_of :: "string \<Rightarrow> string" where
  "tag_of part = (if startsWith part ''svg:'' then drop 4 part else part)"

definition forces_svg :: "string \<Rightarrow> bool" where
  "forces_svg part = (is_tag part \<and> (startsWith part ''svg:'' \<or> part = ''svg''))"

definition last_or :: "'a \<Rightarrow> 'a list \<Rightarrow> 'a" where
  "last_or d xs = (case xs of [] \<Rightarrow> d | y # ys \<Rightarrow> last xs)"

text \<open>
  The id, the classes in selector order and the tag name derived from the tokens: the last
  id and the last tag token win, the tag defaults to \<open>div\<close>.
\<close>

definition selector_id :: "string list \<Rightarrow> string" where
  "selector_id parts = last_or [] (map (drop 1) (filter is_id parts))"

definition selector_classes :: "string list \<Rightarrow> string list" where
  "selector_classes parts = map (drop 1) (filter is_class parts)"

definition selector_tag :: "string list \<Rightarrow> string" where
  "selector_tag parts = last_or ''div'' (map tag_of (filter is_tag parts))"

definition selector_svg :: "string list \<Rightarrow> bool" where
  "selector_svg parts = list_ex forces_svg parts"

text \<open>A node is an object that has both a tag-name field and a properties field.\<close>

fun spec_is_vnode :: "jsval \<Rightarrow> bool" where
  "spec_is_vnode (Obj ps) = (''tagName'' \<in> fst ` set ps \<and> ''properties'' \<in> fst ` set ps)"
| "spec_is_vnode (Arr es ps) = (''tagName'' \<in> fst ` set ps \<and> ''properties'' \<in> fst ` set ps)"
| "spec_is_vnode v = False"

text \<open>
  The overload rules for \<open>h(selector, first, ...rest)\<close>. A string \<open>first\<close> that starts
  with \<open>.\<close> or \<open>#\<close> extends the selector; then \<open>rest\<close> is all children if \<open>rest[0]\<close>
  is a node, and is the properties followed by the children otherwise. Any other string
  is a text child. \<open>null\<close> stands for no properties. A node is a child. An array is
  spread into the children. A plain object is the properties map. For a \<open>first\<close> of
  any other kind (an omitted one, a number, a boolean) the specification names no rule;
  it stands in the properties position, where the last call of \<open>h\<close> puts it.
\<close>

definition effective_selector :: "jsval \<Rightarrow> jsval \<Rightarrow> jsval" where
  "effective_selector selector first =
     (case first of
        Str s \<Rightarrow> if take 1 s = ''.'' \<or> take 1 s = ''#'' then Str (to_string selector @ s)
                 else selector
      | _ \<Rightarrow> selector)"

fun spec_properties :: "jsval \<Rightarrow> jsval list \<Rightarrow> jsval" where
  "spec_properties (Str s) rest =
     (if take 1 s = ''.'' \<or> take 1 s = ''#'' then
        (if spec_is_vnode (rest0 rest) then Obj [] else rest0 rest)
      else Obj [])"
| "spec_properties Null rest = Obj []"
| "spec_properties (Obj ps) rest = (if spec_is_vnode (Obj ps) then Obj [] else Obj ps)"
| "spec_properties (Arr es ps) rest = Obj []"
| "spec_properties v rest = v"

fun spec_children_arguments :: "jsval \<Rightarrow> jsval list \<Rightarrow> jsval list" where
  "spec_children_arguments (Str s) rest =
     (if take 1 s = ''.'' \<or> take 1 s = ''#'' then
        (if spec_is_vnode (rest0 rest) then rest else drop 1 rest)
      else Str s # rest)"
| "spec_children_arguments Null rest = rest"
| "spec_children_arguments (Obj ps) rest =
     (if spec_is_vnode (Obj ps) then Obj ps # rest else rest)"
| "spec_children_arguments (Arr es ps) rest =
     (if spec_is_vnode (Arr es ps) then Arr es ps # rest else es @ rest)"
| "spec_children_arguments v rest = rest"

text \<open>
  Children flattening: the children argument list is flattened one level, and exactly the
  values \<open>null\<close> and \<open>undefined\<close> are dropped.
\<close>

fun spec_spread :: "jsval \<Rightarrow> jsval list" where
  "spec_spread (Arr es ps) = es"
| "spec_spread v = [v]"

definition spec_children :: "jsval list \<Rightarrow> jsval list" where
  "spec_children args =
     filter (\<lambda>c. c \<noteq> Null \<and> c \<noteq> Undefined) (concat (map spec_spread args))"

section \<open>Auxiliary notions\<close>

text \<open>
  Notions used to state the lemmas: the values that are objects, their named properties,
  an update of the named properties, and a lookup that reads a missing key as
  \<open>undefined\<close>.
\<close>

fun is_object :: "jsval \<Rightarrow> bool" where
  "is_object (Obj ps) = True"
| "is_object (Arr es ps) = True"
| "is_object v = False"

fun props_of :: "jsval \<Rightarrow> (string \<times> jsval) list" where
  "props_of (Obj ps) = ps"
| "props_of (Arr es ps) = ps"
| "props_of v = []"

fun map_props :: "((string \<times> jsval) list \<Rightarrow> (string \<times> jsval) list) \<Rightarrow> jsval \<Rightarrow> jsval" where
  "map_props f (Obj ps) = Obj (f ps)"
| "map_props f (Arr es ps) = Arr es (f ps)"
| "map_props f v = v"

definition lookup :: "(string \<times> jsval) list \<Rightarrow> string \<Rightarrow> jsval" where
  "lookup ps k = (case map_of ps k of None \<Rightarrow> Undefined | Some v \<Rightarrow> v)"

text \<open>
  The properties that a call of \<open>createVNode\<close> builds from the tokens \<open>parts\<close> and the
  properties \<open>ps\<close> it was given, step by step, and the tag it builds.
\<close>

definition with_xmlns :: "string list \<Rightarrow> (string \<times> jsval) list \<Rightarrow> (string \<times> jsval) list" where
  "with_xmlns parts ps =
     (if selector_svg parts then AList.update ''xmlns'' (Str SVG_NS) ps else ps)"

definition with_id :: "string list \<Rightarrow> (string \<times> jsval) list \<Rightarrow> (string \<times> jsval) list" where
  "with_id parts ps =
     (if selector_id parts \<noteq> [] \<and> ''id'' \<notin> fst ` set ps
      then AList.update ''id'' (Str (selector_id parts)) ps else ps)"

definition all_classes :: "string list \<Rightarrow> (string \<times> jsval) list \<Rightarrow> jsval list" where
  "all_classes parts ps =
     map Str (selector_classes parts) @
     (case map_of ps ''className'' of None \<Rightarrow> [] | Some c \<Rightarrow> [c])"

definition with_className :: "jsval list \<Rightarrow> (string \<times> jsval) list \<Rightarrow> (string \<times> jsval) list" where
  "with_className classes ps =
     (if classes \<noteq> [] then
        AList.update ''className'' (Str (js_join '' '' classes))
          (if ''class'' \<in> fst ` set ps
           then AList.delete ''class'' (AList.update ''className'' (lookup ps ''class'') ps)
           else ps)
      else ps)"

definition built_props :: "string list \<Rightarrow> (string \<times> jsval) list \<Rightarrow> (string \<times> jsval) list" where
  "built_props parts ps =
     with_className (all_classes parts ps) (with_id parts (with_xmlns parts ps))"

definition built_tag :: "string list \<Rightarrow> (string \<times> jsval) list \<Rightarrow> string" where
  "built_tag parts ps =
     (if truthy (lookup (with_xmlns parts ps) ''xmlns'')
      then selector_tag parts else toUpperCase (selector_tag parts))"

section \<open>Lemmas\<close>

subsection \<open>Sequencing\<close>

lemma bind_Inr [simp]: "bind (Inr x) f = f x"
  by (simp add: bind_def)

lemma bind_Inl [simp]: "bind (Inl e) f = Inl e"
  by (simp add: bind_def)

lemma bind_eq_Inr: "bind m f = Inr y \<longleftrightarrow> (\<exists>x. m = Inr x \<and> f x = Inr y)"
  by (cases m) simp_all

lemma not_Inr_TypeError: "(\<And>r. x \<noteq> Inr r) \<Longrightarrow> x = Inl TypeError"
proof (cases x)
  case (Inl e)
  then show ?thesis by (cases e) simp
next
  case (Inr r)
  assume "\<And>r. x \<noteq> Inr r"
  with Inr show ?thesis by simp
qed

subsection \<open>Objects\<close>

lemma is_object_map_props [simp]: "is_object (map_props f p) = is_object p"
  by (cases p) simp_all

lemma props_of_map_props: "is_object p \<Longrightarrow> props_of (map_props f p) = f (props_of p)"
  by (cases p) simp_all

lemma map_props_map_props: "map_props f (map_props g p) = map_props (\<lambda>ps. f (g ps)) p"
  by (cases p) simp_all

lemma js_in_object: "is_object p \<Longrightarrow> js_in k p = Inr (k \<in> fst ` set (props_of p))"
  by (cases p) simp_all

lemma js_in_primitive: "\<not> is_object p \<Longrightarrow> js_in k p = Inl TypeError"
  by (cases p) simp_all

lemma get_prop_object: "is_object p \<Longrightarrow> get_prop p k = Inr (lookup (props_of p) k)"
  by (cases p) (simp_all add: lookup_def)

lemma set_prop_object: "is_object p \<Longrightarrow> set_prop p k v = Inr (map_props (AList.update k v) p)"
  by (cases p) simp_all

lemma set_prop_primitive: "\<not> is_object p \<Longrightarrow> set_prop p k v = Inl TypeError"
  by (cases p) simp_all

lemma in_keys_iff: "k \<in> fst ` set ps \<longleftrightarrow> map_of ps k \<noteq> None"
  by (simp add: map_of_eq_None_iff)

lemma get_prop_vnode:
  "get_prop (vnode t p cs) ''tagName'' = Inr (Str t)"
  "get_prop (vnode t p cs) ''properties'' = Inr p"
  "get_prop (vnode t p cs) ''children'' = Inr (Arr cs [])"
  by (simp_all add: vnode_def)

subsection \<open>The tokens\<close>

text \<open>A token is an id or class fragment or a word.\<close>

lemma match_all_token:
  "t \<in> set (match_all s) \<Longrightarrow>
     t \<noteq> [] \<and> (is_id t \<or> is_class t \<or> (\<forall>c \<in> set t. word_char c))"
proof (induction s rule: match_all.induct)
  case 1
  then show ?case by simp
next
  case (2 c cs)
  show ?case
  proof (cases "word_char c")
    case True
    with 2 show ?thesis
      by (auto dest: set_takeWhileD)
  next
    case False
    note nw = False
    show ?thesis
    proof (cases "hash_dot c \<and> takeWhile (\<lambda>x. \<not> hash_dot x) cs \<noteq> []")
      case True
      with 2 nw show ?thesis
        by (auto simp: is_id_def is_class_def hash_dot_def)
    next
      case False
      with 2 nw show ?thesis by auto
    qed
  qed
qed

lemma colon_not_word: "\<not> word_char CHR '':''"
  by (simp add: word_char_def)

text \<open>No token starts with \<open>svg:\<close>: the third branch of the loop is never taken.\<close>

lemma match_all_no_svg_prefix:
  assumes "t \<in> set (match_all s)"
  shows "\<not> startsWith t ''svg:''"
proof
  assume p: "startsWith t ''svg:''"
  then obtain r where t: "t = ''svg:'' @ r"
    by (metis append_take_drop_id startsWith_def)
  then have "\<not> is_id t" "\<not> is_class t" "CHR '':'' \<in> set t"
    by (simp_all add: is_id_def is_class_def)
  with match_all_token [OF assms] colon_not_word show False by blast
qed

subsection \<open>The loop over the tokens\<close>

lemma last_or_Cons: "last_or d (x # xs) = last_or x xs"
  by (simp add: last_or_def split: list.splits)

lemma last_or_Nil: "last_or d [] = d"
  by (simp add: last_or_def)

lemma visit_part_object:
  assumes "is_object p"
  shows "visit_part part (i, cs, t, p) =
     Inr (if is_id part then drop 1 part else i,
          if is_class part then cs @ [drop 1 part] else cs,
          if is_tag part then tag_of part else t,
          if forces_svg part then map_props (AList.update ''xmlns'' (Str SVG_NS)) p else p)"
  by (auto simp: visit_part_def is_id_def is_class_def is_tag_def tag_of_def forces_svg_def
      set_prop_object [OF assms])

lemma for_parts_object:
  assumes "is_object p"
  shows "for_parts parts (i, cs, t, p) =
     Inr (last_or i (map (drop 1) (filter is_id parts)),
          cs @ selector_classes parts,
          last_or t (map tag_of (filter is_tag parts)),
          if selector_svg parts then map_props (AList.update ''xmlns'' (Str SVG_NS)) p else p)"
  using assms
proof (induction parts arbitrary: i cs t p)
  case Nil
  show ?case by (simp add: last_or_Nil selector_classes_def selector_svg_def)
next
  case (Cons part parts)
  then show ?case
    by (simp add: visit_part_object last_or_Cons selector_classes_def selector_svg_def
        map_props_map_props)
qed

lemma visit_part_primitive:
  assumes "\<not> is_object p" and "visit_part part (i, cs, t, p) = Inr (i', cs', t', p')"
  shows "p' = p"
  using assms
  by (auto simp: visit_part_def set_prop_primitive split: if_splits)

lemma for_parts_primitive:
  assumes "\<not> is_object p" and "for_parts parts (i, cs, t, p) = Inr (i', cs', t', p')"
  shows "p' = p"
  using assms
proof (induction parts arbitrary: i cs t)
  case Nil
  then show ?case by simp
next
  case (Cons part parts)
  from Cons.prems(2) obtain st where v: "visit_part part (i, cs, t, p) = Inr st"
    and f: "for_parts parts st = Inr (i', cs', t', p')"
    by (auto simp: bind_eq_Inr)
  obtain i1 cs1 t1 p1 where st: "st = (i1, cs1, t1, p1)" by (cases st) auto
  with v Cons.prems(1) have "p1 = p" by (auto dest: visit_part_primitive)
  with f st Cons.IH [OF Cons.prems(1)] show ?case by simp
qed

subsection \<open>createVNode in closed form\<close>

lemma map_of_with_xmlns: "k \<noteq> ''xmlns'' \<Longrightarrow> map_of (with_xmlns parts ps) k = map_of ps k"
  by (simp add: with_xmlns_def update_conv')

lemma map_of_with_id: "k \<noteq> ''id'' \<Longrightarrow> map_of (with_id parts ps) k = map_of ps k"
  by (simp add: with_id_def update_conv')

lemma map_of_with_className:
  "k \<noteq> ''className'' \<Longrightarrow> k \<noteq> ''class'' \<Longrightarrow> map_of (with_className cs ps) k = map_of ps k"
  by (simp add: with_className_def update_conv' delete_conv')

lemma className_with_className:
  "classes \<noteq> [] \<Longrightarrow>
   map_of (with_className classes ps) ''className'' = Some (Str (js_join '' '' classes))"
  by (simp add: with_className_def update_conv')

lemma class_with_className:
  "classes \<noteq> [] \<Longrightarrow> ''class'' \<notin> fst ` set (with_className classes ps)"
  by (auto simp: with_className_def dom_update delete_notin_dom)

lemma default_id_object:
  assumes "is_object p"
  shows "default_id i p =
     Inr (if i \<noteq> [] \<and> ''id'' \<notin> fst ` set (props_of p)
          then map_props (AList.update ''id'' (Str i)) p else p)"
  by (simp add: default_id_def js_in_object [OF assms] set_prop_object [OF assms])

lemma tag_case_object:
  assumes "is_object p"
  shows "tag_case t p = Inr (if truthy (lookup (props_of p) ''xmlns'') then t else toUpperCase t)"
  by (simp add: tag_case_def get_prop_object [OF assms])

lemma push_className_object:
  assumes "is_object p"
  shows "push_className cs p =
     Inr (map Str cs @ (case map_of (props_of p) ''className'' of None \<Rightarrow> [] | Some c \<Rightarrow> [c]))"
  by (auto simp: push_className_def js_in_object [OF assms] get_prop_object [OF assms]
      in_keys_iff lookup_def)

lemma write_className_object:
  assumes "is_object p"
  shows "write_className classes p = Inr (map_props (with_className classes) p)"
proof (cases p)
  case (Obj ps)
  then show ?thesis by (simp add: write_className_def with_className_def lookup_def)
next
  case (Arr es ps)
  then show ?thesis by (simp add: write_className_def with_className_def lookup_def)
qed (use assms in simp_all)

lemma createVNode_object:
  assumes "is_object p" and "matchSelector selector = Inr (Some parts)"
  shows "createVNode selector p args =
     Inr (vnode (built_tag parts (props_of p)) (map_props (built_props parts) p)
            (children_of args),
          map_props (built_props parts) p)"
proof (cases p)
  case (Obj ps)
  show ?thesis
    unfolding createVNode_def Obj
    by (simp add: assms(2) for_parts_object default_id_object tag_case_object
        push_className_object write_className_object with_xmlns_def with_id_def
        all_classes_def selector_id_def selector_tag_def built_props_def built_tag_def
        update_conv' lookup_def)
next
  case (Arr es ps)
  show ?thesis
    unfolding createVNode_def Arr
    by (simp add: assms(2) for_parts_object default_id_object tag_case_object
        push_className_object write_className_object with_xmlns_def with_id_def
        all_classes_def selector_id_def selector_tag_def built_props_def built_tag_def
        update_conv' lookup_def)
qed (use assms(1) in simp_all)

lemma matchSelector_tokens:
  "matchSelector selector = Inr (Some parts) \<Longrightarrow> parts = tokens selector"
  by (cases selector) (auto simp: matchSelector_def tokens_def split: if_splits list.splits)

lemma createVNode_tokens:
  assumes "createVNode selector properties args = Inr r"
  shows "matchSelector selector = Inr (Some (tokens selector))"
proof -
  from assms obtain parts where m: "matchSelector selector = Inr (Some parts)"
    unfolding createVNode_def by (auto simp: bind_eq_Inr Let_def split: option.splits)
  with matchSelector_tokens [OF m] show ?thesis by simp
qed

lemma createVNode_falsy:
  assumes "\<not> truthy p"
  shows "createVNode selector p args =
           bind (createVNode selector (Obj []) args) (\<lambda>(v, q). Inr (v, p))"
  using assms
  by (auto simp: createVNode_def bind_def Let_def split: sum.splits option.splits prod.splits)

lemma createVNode_primitive:
  assumes "truthy p" and "\<not> is_object p"
  shows "createVNode selector p args = Inl TypeError"
proof (rule not_Inr_TypeError)
  fix r
  show "createVNode selector p args \<noteq> Inr r"
  proof
    assume "createVNode selector p args = Inr r"
    then obtain parts i cs t p1 p2 cs'
      where l: "for_parts parts ([], [], ''div'', p) = Inr (i, cs, t, p1)"
        and d: "default_id i p1 = Inr p2"
        and c: "push_className cs p2 = Inr cs'"
      unfolding createVNode_def using assms(1)
      by (auto simp: bind_eq_Inr Let_def split: option.splits)
    from for_parts_primitive [OF assms(2) l] have "p1 = p" .
    with d assms(2) have "p2 = p"
      by (auto simp: default_id_def js_in_primitive split: if_splits)
    with c assms(2) show False
      by (simp add: push_className_def js_in_primitive)
  qed
qed

text \<open>What a call of createVNode that returns has returned.\<close>

lemma createVNode_Inr:
  assumes "createVNode selector p args = Inr (v, q)"
  shows "(truthy p \<longrightarrow> is_object p \<and> q = map_props (built_props (tokens selector)) p
            \<and> v = vnode (built_tag (tokens selector) (props_of p)) q (children_of args))
       \<and> (\<not> truthy p \<longrightarrow> q = p
            \<and> v = vnode (built_tag (tokens selector) []) (Obj (built_props (tokens selector) []))
                   (children_of args))"
proof (cases "truthy p")
  case True
  then have o: "is_object p"
    using createVNode_primitive [of p selector args] assms by auto
  from createVNode_object [OF o createVNode_tokens [OF assms]] assms True o
  show ?thesis by auto
next
  case False
  from assms obtain v' q' where c: "createVNode selector (Obj []) args = Inr (v', q')"
    and "v = v'" "q = p"
    by (auto simp: createVNode_falsy [OF False] bind_eq_Inr)
  with createVNode_object [OF _ createVNode_tokens [OF c], of "Obj []" args] False
  show ?thesis by auto
qed

text \<open>When createVNode returns.\<close>

lemma createVNode_returns:
  "(\<exists>r. createVNode selector p args = Inr r) \<longleftrightarrow>
     matchSelector selector = Inr (Some (tokens selector)) \<and> (truthy p \<longrightarrow> is_object p)"
proof
  assume "\<exists>r. createVNode selector p args = Inr r"
  then obtain r where r: "createVNode selector p args = Inr r" ..
  with createVNode_primitive [of p selector args] have "truthy p \<longrightarrow> is_object p" by auto
  with createVNode_tokens [OF r]
  show "matchSelector selector = Inr (Some (tokens selector)) \<and> (truthy p \<longrightarrow> is_object p)"
    by simp
next
  assume a: "matchSelector selector = Inr (Some (tokens selector)) \<and> (truthy p \<longrightarrow> is_object p)"
  show "\<exists>r. createVNode selector p args = Inr r"
  proof (cases "truthy p")
    case True
    with a createVNode_object [of p selector "tokens selector" args] show ?thesis by simp
  next
    case False
    with a createVNode_object [of "Obj []" selector "tokens selector" args]
    show ?thesis by (simp add: createVNode_falsy)
  qed
qed

subsection \<open>The overloads of h\<close>

lemma isVNode_Obj [simp]: "isVNode (Obj ps) = Inr (spec_is_vnode (Obj ps))"
  by (auto simp: isVNode_def)

lemma isVNode_Arr [simp]: "isVNode (Arr es ps) = Inr (spec_is_vnode (Arr es ps))"
  by (auto simp: isVNode_def)

lemma isVNode_spec: "isVNode v = Inr b \<Longrightarrow> b = spec_is_vnode v"
  by (cases v) (auto simp: isVNode_def split: if_splits)

lemma spec_is_vnode_truthy: "spec_is_vnode v \<Longrightarrow> truthy v"
  by (cases v) simp_all

lemma spec_spread_eq: "spec_spread = concat_spread"
proof
  fix v show "spec_spread v = concat_spread v" by (cases v) simp_all
qed

lemma not_nullish_eq: "not_nullish c \<longleftrightarrow> (c \<noteq> Null \<and> c \<noteq> Undefined)"
  by (cases c) simp_all

lemma spec_children_eq: "spec_children args = children_of args"
  by (simp add: spec_children_def children_of_def spec_spread_eq not_nullish_eq [symmetric])

text \<open>
  Every call of \<open>h\<close> that returns has called \<open>createVNode\<close> with the selector, the
  properties and the children arguments that the overload rules name.
\<close>

lemma h_calls_createVNode:
  assumes "h selector first rest = Inr (v, first', rest')"
  shows "\<exists>q. createVNode (effective_selector selector first) (spec_properties first rest)
                 (spec_children_arguments first rest) = Inr (v, q)"
  using assms unfolding h_def fresh_def forward_rest_def effective_selector_def
  by (cases first)
    (auto simp: bind_eq_Inr isClassOrId_def split: if_splits
      dest: isVNode_spec spec_is_vnode_truthy)

lemma h_Obj:
  "\<not> spec_is_vnode (Obj ps) \<Longrightarrow>
   h selector (Obj ps) rest =
     bind (createVNode selector (Obj ps) rest) (\<lambda>(v, p). Inr (v, p, rest))"
  by (auto simp: h_def)

lemma h_vnode_Obj:
  "spec_is_vnode (Obj ps) \<Longrightarrow>
   h selector (Obj ps) rest =
     bind (createVNode selector (Obj []) (Obj ps # rest)) (\<lambda>(v, p). Inr (v, Obj ps, rest))"
  by (auto simp: h_def fresh_def)

lemma h_Undefined:
  "h selector Undefined rest =
     bind (createVNode selector Undefined rest) (\<lambda>(v, p). Inr (v, p, rest))"
  by (simp add: h_def)

lemma isVNode_primitive: "\<not> is_object v \<Longrightarrow> isVNode v = Inl TypeError"
  by (cases v) (simp_all add: isVNode_def)

lemma isVNode_object: "is_object v \<Longrightarrow> isVNode v = Inr (spec_is_vnode v)"
  by (cases v) simp_all

text \<open>
  Unless \<open>first\<close> is a string followed by a truthy primitive, \<open>h\<close> does what
  \<open>createVNode\<close> does on the arguments that the overload rules name.
\<close>

lemma h_createVNode:
  assumes "\<forall>s. first = Str s \<longrightarrow> truthy (rest0 rest) \<longrightarrow> is_object (rest0 rest)"
  shows "\<exists>f. h selector first rest =
           bind (createVNode (effective_selector selector first) (spec_properties first rest)
                   (spec_children_arguments first rest)) (\<lambda>(v, p). Inr (v, f p))"
proof (cases first)
  case (Str s)
  show ?thesis
  proof (cases "truthy (rest0 rest)")
    case True
    with assms Str have o: "is_object (rest0 rest)" by simp
    show ?thesis
      unfolding h_def Str fresh_def forward_rest_def effective_selector_def
      by (auto simp: True isVNode_object [OF o] isClassOrId_def intro!: exI)
  next
    case False
    then have "\<not> spec_is_vnode (rest0 rest)" using spec_is_vnode_truthy by blast
    then show ?thesis
      unfolding h_def Str fresh_def forward_rest_def effective_selector_def
      by (auto simp: False isClassOrId_def intro!: exI)
  qed
qed (auto simp: h_def fresh_def effective_selector_def intro!: exI)


lemma h_string_raises:
  assumes "truthy (rest0 rest)" and "\<not> is_object (rest0 rest)"
  shows "h selector (Str s) rest = Inl TypeError"
  by (simp add: h_def assms isVNode_primitive)

text \<open>When \<open>h\<close> returns.\<close>

lemma h_returns:
  "(\<exists>r. h selector first rest = Inr r) \<longleftrightarrow>
     (\<forall>s. first = Str s \<longrightarrow> truthy (rest0 rest) \<longrightarrow> is_object (rest0 rest))
     \<and> matchSelector (effective_selector selector first)
         = Inr (Some (tokens (effective_selector selector first)))
     \<and> (truthy (spec_properties first rest) \<longrightarrow> is_object (spec_properties first rest))"
  (is "?L \<longleftrightarrow> ?A \<and> ?B \<and> ?C")
proof
  assume ?L
  then obtain v f' r' where r: "h selector first rest = Inr (v, f', r')" by auto
  have a: ?A
  proof (intro allI impI)
    fix s assume "first = Str s" and "truthy (rest0 rest)"
    with r h_string_raises [of rest selector s] show "is_object (rest0 rest)" by auto
  qed
  from h_calls_createVNode [OF r] obtain q
    where "createVNode (effective_selector selector first) (spec_properties first rest)
             (spec_children_arguments first rest) = Inr (v, q)" by blast
  then have "\<exists>r. createVNode (effective_selector selector first) (spec_properties first rest)
             (spec_children_arguments first rest) = Inr r" by blast
  then have "?B \<and> ?C" using createVNode_returns by blast
  with a show "?A \<and> ?B \<and> ?C" by blast
next
  assume abc: "?A \<and> ?B \<and> ?C"
  then have "\<exists>r. createVNode (effective_selector selector first) (spec_properties first rest)
             (spec_children_arguments first rest) = Inr r"
    using createVNode_returns by blast
  then obtain v q where c: "createVNode (effective_selector selector first)
      (spec_properties first rest) (spec_children_arguments first rest) = Inr (v, q)"
    by auto
  from abc h_createVNode [of first rest selector] obtain f
    where "h selector first rest =
           bind (createVNode (effective_selector selector first) (spec_properties first rest)
                   (spec_children_arguments first rest)) (\<lambda>(v, p). Inr (v, f p))"
    by blast
  with c show ?L by simp
qed

text \<open>A selector is accepted if it is falsy or has a token.\<close>

lemma matchSelector_accepts:
  "matchSelector selector = Inr (Some (tokens selector)) \<longleftrightarrow>
     \<not> truthy selector \<or> tokens selector \<noteq> []"
proof (cases selector)
  case (Str s)
  show ?thesis
  proof (cases "s = []")
    case True
    with Str show ?thesis by (simp add: matchSelector_def tokens_def)
  next
    case False
    with Str show ?thesis
      by (cases "match_all s") (simp_all add: matchSelector_def tokens_def)
  qed
qed (simp_all add: matchSelector_def tokens_def)

lemma truthy_object: "truthy v \<Longrightarrow> is_object v \<longleftrightarrow> typeof v = ''object''"
  by (cases v) simp_all

lemma typeof_string_iff: "typeof v = ''string'' \<longleftrightarrow> (\<exists>s. v = Str s)"
  by (cases v) simp_all

text \<open>The children of a node that \<open>h\<close> has returned.\<close>

lemma h_children_of_returned:
  assumes "h selector first rest = Inr (v, first', rest')"
  shows "get_prop v ''children'' =
           Inr (Arr (spec_children (spec_children_arguments first rest)) [])"
proof -
  from h_calls_createVNode [OF assms] obtain q
    where c: "createVNode (effective_selector selector first) (spec_properties first rest)
             (spec_children_arguments first rest) = Inr (v, q)" by blast
  from createVNode_Inr [OF c]
  have "\<exists>t r. v = vnode t r (children_of (spec_children_arguments first rest))"
    by (cases "truthy (spec_properties first rest)") auto
  then show ?thesis by (auto simp: get_prop_vnode spec_children_eq)
qed

lemma tokens_matchSelector:
  assumes "tokens selector \<noteq> []"
  shows "matchSelector selector = Inr (Some (tokens selector))"
proof (cases selector)
  case (Str s)
  with assms have "match_all s \<noteq> []" by (simp add: tokens_def)
  then have "s \<noteq> []" by auto
  with Str \<open>match_all s \<noteq> []\<close> show ?thesis
    by (simp add: matchSelector_def tokens_def split: list.splits)
qed (use assms in \<open>simp_all add: tokens_def\<close>)

text \<open>The calls of \<open>h\<close> with an object or nothing after the selector, in closed form.\<close>

lemma h_Obj_closed:
  assumes "\<not> spec_is_vnode (Obj ps)" and "matchSelector selector = Inr (Some parts)"
  shows "h selector (Obj ps) rest =
           Inr (vnode (built_tag parts ps) (Obj (built_props parts ps)) (children_of rest),
                Obj (built_props parts ps), rest)"
  using createVNode_object [OF _ assms(2), of "Obj ps" rest]
  by (simp add: h_Obj [OF assms(1)])

lemma h_vnode_Obj_closed:
  assumes "spec_is_vnode (Obj ps)" and "matchSelector selector = Inr (Some parts)"
  shows "h selector (Obj ps) rest =
           Inr (vnode (built_tag parts []) (Obj (built_props parts []))
                  (Obj ps # children_of rest),
                Obj ps, rest)"
  using createVNode_object [OF _ assms(2), of "Obj []" "Obj ps # rest"]
  by (simp add: h_vnode_Obj [OF assms(1)] children_of_def)

lemma h_Undefined_closed:
  assumes "matchSelector selector = Inr (Some parts)"
  shows "h selector Undefined [] =
           Inr (vnode (built_tag parts []) (Obj (built_props parts [])) [], Undefined, [])"
  using createVNode_object [OF _ assms, of "Obj []" "[]"]
  by (simp add: h_Undefined createVNode_falsy children_of_def)

lemma h_Undefined_returns:
  assumes "h selector Undefined [] = Inr r"
  shows "matchSelector selector = Inr (Some (tokens selector))"
proof -
  from assms obtain r' where "createVNode selector Undefined [] = Inr r'"
    by (auto simp: h_Undefined bind_eq_Inr)
  then show ?thesis by (rule createVNode_tokens)
qed

text \<open>
  The class names of a node, for any overload: if the call returns and the properties
  map of the call is the object \<open>ps\<close>, the \<open>className\<close> of the node is the join of the
  classes of the selector, extended by \<open>first\<close> where it is a fragment, and the
  \<open>className\<close> of \<open>ps\<close>; the key \<open>class\<close> is removed.
\<close>

lemma h_className_any_overload:
  assumes "h selector first rest = Inr (v, first', rest')"
    and "spec_properties first rest = Obj ps"
    and "classes = map Str (selector_classes (tokens (effective_selector selector first))) @
                   (case map_of ps ''className'' of None \<Rightarrow> [] | Some c \<Rightarrow> [c])"
    and "classes \<noteq> []"
  shows "\<exists>ps'. get_prop v ''properties'' = Inr (Obj ps')
           \<and> map_of ps' ''className'' = Some (Str (js_join '' '' classes))
           \<and> ''class'' \<notin> fst ` set ps'"
proof -
  define parts where "parts = tokens (effective_selector selector first)"
  from h_calls_createVNode [OF assms(1)] obtain q
    where c: "createVNode (effective_selector selector first) (Obj ps)
               (spec_children_arguments first rest) = Inr (v, q)"
    by (auto simp: assms(2))
  have cl: "all_classes parts ps = classes"
    by (simp add: all_classes_def assms(3) parts_def)
  from createVNode_Inr [OF c]
  have "get_prop v ''properties'' = Inr (Obj (built_props parts ps))"
    by (simp add: get_prop_vnode parts_def)
  moreover have "map_of (built_props parts ps) ''className'' =
                   Some (Str (js_join '' '' classes))"
    by (simp add: built_props_def cl className_with_className [OF assms(4)])
  moreover have "''class'' \<notin> fst ` set (built_props parts ps)"
    by (simp add: built_props_def cl class_with_className [OF assms(4)])
  ultimately show ?thesis by blast
qed

lemma lookup_built_props_xmlns:
  "lookup (built_props parts ps) ''xmlns'' = lookup (with_xmlns parts ps) ''xmlns''"
  by (simp add: lookup_def built_props_def map_of_with_className map_of_with_id)

lemma keys_built_props_Nil:
  "fst ` set (built_props parts []) \<subseteq> {''xmlns'', ''id'', ''className''}"
  by (auto simp: built_props_def with_className_def with_id_def with_xmlns_def dom_update
      split: if_splits)

lemma no_tag_no_svg: "filter is_tag parts = [] \<Longrightarrow> \<not> selector_svg parts"
  by (auto simp: selector_svg_def list_ex_iff filter_empty_conv forces_svg_def)

lemma toUpperCase_div: "toUpperCase ''div'' = ''DIV''"
  by code_simp

subsection \<open>The factories\<close>

lemma fold_upd:
  "fold (\<lambda>k m. m(k \<mapsto> g k)) ks m0 t = (if t \<in> set ks then Some (g t) else m0 t)"
  by (induction ks arbitrary: m0) auto

text \<open>
  What \<open>DOM\<close> holds under a name: the SVG factory for every SVG tag name, the HTML factory
  for the HTML tag names that are not SVG tag names as well.
\<close>

lemma DOM_lookup:
  "DOM t =
     (if t \<in> set SVG_TAG_NAMES then Some (\<lambda>first rest. h (Str (''svg:'' @ t)) first rest)
      else if t \<in> set HTML_TAG_NAMES then Some (\<lambda>first rest. h (Str t) first rest)
      else None)"
  unfolding DOM_def by (simp only: fold_upd)

lemma DOM_collisions:
  "filter (\<lambda>t. t \<in> set SVG_TAG_NAMES) HTML_TAG_NAMES =
     [''font'', ''image'', ''script'', ''style'', ''title'']"
  by code_simp

lemma call_DOM_svg:
  "t \<in> set SVG_TAG_NAMES \<Longrightarrow> call_DOM t first rest = h (Str (''svg:'' @ t)) first rest"
  by (simp add: call_DOM_def DOM_lookup)

lemma call_DOM_html:
  "t \<in> set HTML_TAG_NAMES \<Longrightarrow> t \<notin> set SVG_TAG_NAMES \<Longrightarrow>
   call_DOM t first rest = h (Str t) first rest"
  by (simp add: call_DOM_def DOM_lookup)

text \<open>
  The example of the unit test \<open>test DOM factories are equivalent to h\<close>: the nodes
  \<open>h("div", "#foo.bar", {className: "baz"}, h("span", h("b", "hello")))\<close> and
  \<open>div("#foo.bar", {className: "baz"}, span(b("hello")))\<close> are equal.
\<close>

lemma DOM_factories_example:
  "bind (h (Str ''b'') (Str ''hello'') []) (\<lambda>(b, x, y).
   bind (h (Str ''span'') b []) (\<lambda>(span, x, y).
   h (Str ''div'') (Str ''#foo.bar'') [Obj [(''className'', Str ''baz'')], span]))
   = bind (call_DOM ''b'' (Str ''hello'') []) (\<lambda>(b, x, y).
     bind (call_DOM ''span'' b []) (\<lambda>(span, x, y).
     call_DOM ''div'' (Str ''#foo.bar'') [Obj [(''className'', Str ''baz'')], span]))"
  by code_simp

subsection \<open>The unit tests of the repository\<close>

text \<open>
  What test_hyper-script.js asserts about \<open>h\<close> and the factories, on the model. The node
  of an empty \<open>span\<close> is \<open>vnode ''SPAN'' (Obj []) []\<close>. The tests of the SVG
  namespace and of two classes are settled with C6 and C5 below, the test of the
  equivalence of the factories is the example above.
\<close>

lemma unit_tests_h:
  "h Undefined Undefined [] = Inr (vnode ''DIV'' (Obj []) [], Undefined, [])"
  "h (Str []) Undefined [] = Inr (vnode ''DIV'' (Obj []) [], Undefined, [])"
  "h (Str ''div'') Undefined [] = Inr (vnode ''DIV'' (Obj []) [], Undefined, [])"
  "h (Str ''div'') (Obj [(''foo'', Str ''bar'')]) []
     = Inr (vnode ''DIV'' (Obj [(''foo'', Str ''bar'')]) [], Obj [(''foo'', Str ''bar'')], [])"
  "h (Str ''div'') (Str ''text'') [] = Inr (vnode ''DIV'' (Obj []) [Str ''text''], Str ''text'', [])"
  "h (Str ''span'') Undefined [] = Inr (vnode ''SPAN'' (Obj []) [], Undefined, [])"
  "h (Str ''div'') (vnode ''SPAN'' (Obj []) []) [] = Inr (vnode ''DIV'' (Obj []) [(vnode ''SPAN'' (Obj []) [])], (vnode ''SPAN'' (Obj []) []), [])"
  "h (Str ''div'') (Arr [(vnode ''SPAN'' (Obj []) [])] []) [] = Inr (vnode ''DIV'' (Obj []) [(vnode ''SPAN'' (Obj []) [])], Arr [(vnode ''SPAN'' (Obj []) [])] [], [])"
  "h (Str ''div'') Null [] = Inr (vnode ''DIV'' (Obj []) [], Null, [])"
  "h (Str ''div'') (Arr [Null] []) [] = Inr (vnode ''DIV'' (Obj []) [], Arr [Null] [], [])"
  "h (Str ''div'') (Arr [Undefined] []) []
     = Inr (vnode ''DIV'' (Obj []) [], Arr [Undefined] [], [])"
  "h (Str ''.foo'') Undefined []
     = Inr (vnode ''DIV'' (Obj [(''className'', Str ''foo'')]) [], Undefined, [])"
  "h (Str ''#foo'') Undefined []
     = Inr (vnode ''DIV'' (Obj [(''id'', Str ''foo'')]) [], Undefined, [])"
  "h (Str ''#foo'') (Obj [(''id'', Str ''bar'')]) []
     = Inr (vnode ''DIV'' (Obj [(''id'', Str ''bar'')]) [], Obj [(''id'', Str ''bar'')], [])"
  by code_simp+

lemma unit_tests_DOM:
  "call_DOM ''div'' Undefined [] = Inr (vnode ''DIV'' (Obj []) [], Undefined, [])"
  "call_DOM ''div'' (Str ''#foo.bar'') []
     = Inr (vnode ''DIV'' (Obj [(''id'', Str ''foo''), (''className'', Str ''bar'')]) [],
            Str ''#foo.bar'', [])"
  "call_DOM ''div'' (Obj [(''className'', Str ''foo bar'')]) []
     = Inr (vnode ''DIV'' (Obj [(''className'', Str ''foo bar'')]) [],
            Obj [(''className'', Str ''foo bar'')], [])"
  "call_DOM ''span'' Undefined [] = Inr (vnode ''SPAN'' (Obj []) [], Undefined, [])"
  "call_DOM ''div'' (vnode ''SPAN'' (Obj []) []) [] = Inr (vnode ''DIV'' (Obj []) [(vnode ''SPAN'' (Obj []) [])], (vnode ''SPAN'' (Obj []) []), [])"
  "call_DOM ''div'' (Arr [(vnode ''SPAN'' (Obj []) []), (vnode ''SPAN'' (Obj []) []), (vnode ''SPAN'' (Obj []) [])] []) []
     = Inr (vnode ''DIV'' (Obj []) [(vnode ''SPAN'' (Obj []) []), (vnode ''SPAN'' (Obj []) []), (vnode ''SPAN'' (Obj []) [])], Arr [(vnode ''SPAN'' (Obj []) []), (vnode ''SPAN'' (Obj []) []), (vnode ''SPAN'' (Obj []) [])] [], [])"
  "call_DOM ''div'' (vnode ''SPAN'' (Obj []) []) [(vnode ''SPAN'' (Obj []) []), (vnode ''SPAN'' (Obj []) [])]
     = Inr (vnode ''DIV'' (Obj []) [(vnode ''SPAN'' (Obj []) []), (vnode ''SPAN'' (Obj []) []), (vnode ''SPAN'' (Obj []) [])], (vnode ''SPAN'' (Obj []) []), [(vnode ''SPAN'' (Obj []) []), (vnode ''SPAN'' (Obj []) [])])"
  "call_DOM ''div'' (Obj [(''className'', Str ''foo'')]) [(vnode ''SPAN'' (Obj []) []), (vnode ''SPAN'' (Obj []) [])]
     = Inr (vnode ''DIV'' (Obj [(''className'', Str ''foo'')]) [(vnode ''SPAN'' (Obj []) []), (vnode ''SPAN'' (Obj []) [])],
            Obj [(''className'', Str ''foo'')], [(vnode ''SPAN'' (Obj []) []), (vnode ''SPAN'' (Obj []) [])])"
  by code_simp+

section \<open>The claims\<close>

subsection \<open>C1: rendering a built node\<close>

text \<open>
  C1. Rendering the node built by \<open>h("div", {className: "x"}, "text")\<close> with a renderer
  over the stub document should give one element \<open>DIV\<close> with the attribute \<open>class="x"\<close>
  and one text child. The code does not: \<open>render\<close> reads \<open>vtree.attributes.xmlns\<close>,
  the node built by \<open>h\<close> has the fields \<open>tagName\<close>, \<open>properties\<close> and \<open>children\<close>
  and no \<open>attributes\<close>, so the read of \<open>xmlns\<close> raises a TypeError before any element
  is created.
\<close>

theorem render_built_node_raises:
  "h (Str ''div'') (Obj [(''className'', Str ''x'')]) [Str ''text'']
     = Inr (vnode ''DIV'' (Obj [(''className'', Str ''x'')]) [Str ''text''],
            Obj [(''className'', Str ''x'')], [Str ''text''])
   \<and> get_prop (vnode ''DIV'' (Obj [(''className'', Str ''x'')]) [Str ''text'']) ''attributes''
     = Inr Undefined
   \<and> render new_Renderer (vnode ''DIV'' (Obj [(''className'', Str ''x'')]) [Str ''text''])
     = Inl TypeError"
  by code_simp

subsection \<open>C2: the builder never raises\<close>

text \<open>
  C2. \<open>h\<close> should return a node for every selector string and every argument list. The
  code raises a TypeError for the selector \<open>"!!!"\<close>, in which \<open>match\<close> finds nothing
  and returns \<open>null\<close>, which the loop over the tokens cannot iterate; for two text
  children, where \<open>isVNode\<close> applies \<open>in\<close> to the string \<open>rest[0]\<close>; and for a number
  in the properties position, where \<open>createVNode\<close> applies \<open>in\<close> to it.
\<close>

theorem h_raises:
  "matchSelector (Str ''!!!'') = Inr None
   \<and> h (Str ''!!!'') Undefined [] = Inl TypeError
   \<and> h (Str ''div'') (Str ''hello'') [Str ''world''] = Inl TypeError
   \<and> h (Str ''div'') (Num 5) [] = Inl TypeError"
  by code_simp

subsection \<open>C3: effects of h on its arguments\<close>

text \<open>
  C3, as stated: a call \<open>h(selector, props, ...children)\<close> leaves \<open>props\<close> unchanged.
  It does not: \<open>h("#foo", props)\<close> with \<open>props = {}\<close> leaves \<open>props\<close> as
  \<open>{id: "foo"}\<close>, the object that the node holds as its properties.
\<close>

theorem h_mutates_props_counterexample:
  "h (Str ''#foo'') (Obj []) []
     = Inr (vnode ''DIV'' (Obj [(''id'', Str ''foo'')]) [], Obj [(''id'', Str ''foo'')], [])
   \<and> Obj [(''id'', Str ''foo'')] \<noteq> Obj []"
  by code_simp

text \<open>
  C3, amended. A call \<open>h(selector, props, ...children)\<close> with an explicit properties
  object, and a selector that is falsy or has a token, returns a node, updates \<open>props\<close>
  in place and stores that same object in the node: after the call \<open>props\<close> is the
  node's \<open>properties\<close>. Only the keys \<open>xmlns\<close>, \<open>id\<close>, \<open>className\<close> and \<open>class\<close>
  of \<open>props\<close> can have changed; every other key of \<open>props\<close> is as before. Nothing is
  said of the other arguments and of a second call: an object that is passed as \<open>props\<close>
  and once more among the children is one object in the code and shows the update there
  as well.
\<close>

theorem h_props_frame:
  assumes "\<not> spec_is_vnode (Obj ps)"
    and "matchSelector selector = Inr (Some parts)"
  shows "\<exists>v ps' rest'. h selector (Obj ps) rest = Inr (v, Obj ps', rest')
           \<and> get_prop v ''properties'' = Inr (Obj ps')
           \<and> (\<forall>k. k \<notin> {''xmlns'', ''id'', ''className'', ''class''}
                  \<longrightarrow> map_of ps' k = map_of ps k)"
proof -
  have "\<forall>k. k \<notin> {''xmlns'', ''id'', ''className'', ''class''}
                  \<longrightarrow> map_of (built_props parts ps) k = map_of ps k"
    by (simp add: built_props_def map_of_with_className map_of_with_id map_of_with_xmlns)
  with h_Obj_closed [OF assms, of rest] show ?thesis
    by (simp add: get_prop_vnode)
qed

text \<open>
  The amended C3 at \<open>h("svg#foo.bar", {title: "t", class: "a"}, "x")\<close>: \<open>xmlns\<close>, \<open>id\<close>
  and \<open>className\<close> are added, \<open>class\<close> is removed, \<open>title\<close> is kept.
\<close>

theorem h_props_frame_witness:
  "\<not> spec_is_vnode (Obj [(''title'', Str ''t''), (''class'', Str ''a'')])
   \<and> matchSelector (Str ''svg#foo.bar'') = Inr (Some [''svg'', ''#foo'', ''.bar''])
   \<and> h (Str ''svg#foo.bar'') (Obj [(''title'', Str ''t''), (''class'', Str ''a'')]) [Str ''x'']
     = Inr (vnode ''svg''
              (Obj [(''title'', Str ''t''), (''xmlns'', Str ''http://www.w3.org/2000/svg''),
                    (''id'', Str ''foo''), (''className'', Str ''bar'')])
              [Str ''x''],
            Obj [(''title'', Str ''t''), (''xmlns'', Str ''http://www.w3.org/2000/svg''),
                 (''id'', Str ''foo''), (''className'', Str ''bar'')],
            [Str ''x''])
   \<and> ''title'' \<notin> {''xmlns'', ''id'', ''className'', ''class''}
   \<and> map_of [(''title'', Str ''t''), (''xmlns'', Str ''http://www.w3.org/2000/svg''),
              (''id'', Str ''foo''), (''className'', Str ''bar'')] ''title''
     = map_of [(''title'', Str ''t''), (''class'', Str ''a'')] ''title''"
proof -
  have a: "\<not> spec_is_vnode (Obj [(''title'', Str ''t''), (''class'', Str ''a'')])"
    by simp
  have m: "matchSelector (Str ''svg#foo.bar'') = Inr (Some [''svg'', ''#foo'', ''.bar''])"
    by code_simp
  have e: "h (Str ''svg#foo.bar'') (Obj [(''title'', Str ''t''), (''class'', Str ''a'')]) [Str ''x'']
     = Inr (vnode ''svg''
              (Obj [(''title'', Str ''t''), (''xmlns'', Str ''http://www.w3.org/2000/svg''),
                    (''id'', Str ''foo''), (''className'', Str ''bar'')])
              [Str ''x''],
            Obj [(''title'', Str ''t''), (''xmlns'', Str ''http://www.w3.org/2000/svg''),
                 (''id'', Str ''foo''), (''className'', Str ''bar'')],
            [Str ''x''])"
    by code_simp
  from h_props_frame [OF a m, of "[Str ''x'']"] a m e show ?thesis by simp
qed

subsection \<open>C4: children\<close>

text \<open>
  C4. For every call of \<open>h\<close>, the node's children should be the children arguments of
  the call, in whichever overload position they stand, flattened one level, with exactly
  \<open>null\<close> and \<open>undefined\<close> removed; every other value, the falsy \<open>0\<close>, the empty
  string and \<open>false\<close> included, is kept in order. They are whenever the call returns a
  node, and it returns one exactly when a string \<open>first\<close> is not followed by a truthy
  primitive, the selector (extended by \<open>first\<close> where that is a fragment) is falsy or
  has a token, and the value in the properties position is falsy or an object. Every other
  call raises a TypeError instead, as \<open>h("div", "hello", "world")\<close> does.
\<close>

theorem h_children_or_raises:
  "if (typeof first = ''string'' \<and> truthy (rest0 rest) \<longrightarrow> typeof (rest0 rest) = ''object'')
      \<and> (\<not> truthy (effective_selector selector first)
           \<or> tokens (effective_selector selector first) \<noteq> [])
      \<and> (truthy (spec_properties first rest)
           \<longrightarrow> typeof (spec_properties first rest) = ''object'')
   then \<exists>v first' rest'. h selector first rest = Inr (v, first', rest')
          \<and> get_prop v ''children'' =
              Inr (Arr (spec_children (spec_children_arguments first rest)) [])
   else h selector first rest = Inl TypeError"
proof -
  define accepted where "accepted \<longleftrightarrow>
       (typeof first = ''string'' \<and> truthy (rest0 rest) \<longrightarrow> typeof (rest0 rest) = ''object'')
     \<and> (\<not> truthy (effective_selector selector first)
          \<or> tokens (effective_selector selector first) \<noteq> [])
     \<and> (truthy (spec_properties first rest)
          \<longrightarrow> typeof (spec_properties first rest) = ''object'')"
  have r: "(\<exists>r. h selector first rest = Inr r) \<longleftrightarrow> accepted"
    unfolding h_returns accepted_def matchSelector_accepts
    by (auto simp: truthy_object typeof_string_iff)
  show ?thesis
  proof (cases accepted)
    case True
    with r obtain v first' rest' where e: "h selector first rest = Inr (v, first', rest')"
      by auto
    from h_children_of_returned [OF e] e
    have "\<exists>v first' rest'. h selector first rest = Inr (v, first', rest')
               \<and> get_prop v ''children'' =
                   Inr (Arr (spec_children (spec_children_arguments first rest)) [])"
      by blast
    with True show ?thesis unfolding accepted_def by simp
  next
    case False
    with r have "\<And>x. h selector first rest \<noteq> Inr x" by blast
    then have "h selector first rest = Inl TypeError" by (rule not_Inr_TypeError)
    with False show ?thesis unfolding accepted_def by simp
  qed
qed

text \<open>
  C4 at \<open>h("div", [0, "", false, null, undefined, "x"], [1], null)\<close>, where the
  children are \<open>[0, "", false, "x", 1]\<close>, and at \<open>h("div", "hello", "world")\<close>, where
  the call raises.
\<close>

theorem h_children_or_raises_witness:
  "h (Str ''div'') (Arr [Num 0, Str [], Bool False, Null, Undefined, Str ''x''] [])
     [Arr [Num 1] [], Null]
   = Inr (vnode ''DIV'' (Obj []) [Num 0, Str [], Bool False, Str ''x'', Num 1],
          Arr [Num 0, Str [], Bool False, Null, Undefined, Str ''x''] [],
          [Arr [Num 1] [], Null])
   \<and> spec_children (spec_children_arguments
         (Arr [Num 0, Str [], Bool False, Null, Undefined, Str ''x''] [])
         [Arr [Num 1] [], Null])
     = [Num 0, Str [], Bool False, Str ''x'', Num 1]
   \<and> typeof (Str ''hello'') = ''string'' \<and> truthy (rest0 [Str ''world''])
   \<and> typeof (rest0 [Str ''world'']) \<noteq> ''object''
   \<and> h (Str ''div'') (Str ''hello'') [Str ''world''] = Inl TypeError"
proof -
  have e: "h (Str ''div'') (Arr [Num 0, Str [], Bool False, Null, Undefined, Str ''x''] [])
     [Arr [Num 1] [], Null]
   = Inr (vnode ''DIV'' (Obj []) [Num 0, Str [], Bool False, Str ''x'', Num 1],
          Arr [Num 0, Str [], Bool False, Null, Undefined, Str ''x''] [],
          [Arr [Num 1] [], Null])"
    by code_simp
  have s: "spec_children (spec_children_arguments
             (Arr [Num 0, Str [], Bool False, Null, Undefined, Str ''x''] [])
             [Arr [Num 1] [], Null])
           = [Num 0, Str [], Bool False, Str ''x'', Num 1]"
    by code_simp
  have c: "typeof (Str ''hello'') = ''string'' \<and> truthy (rest0 [Str ''world''])
           \<and> typeof (rest0 [Str ''world'']) \<noteq> ''object''"
    by (simp add: rest0_def)
  have c2: "(typeof (Arr [Num 0, Str [], Bool False, Null, Undefined, Str ''x''] []) = ''string''
              \<and> truthy (rest0 [Arr [Num 1] [], Null])
              \<longrightarrow> typeof (rest0 [Arr [Num 1] [], Null]) = ''object'')
      \<and> (\<not> truthy (effective_selector (Str ''div'')
                     (Arr [Num 0, Str [], Bool False, Null, Undefined, Str ''x''] []))
           \<or> tokens (effective_selector (Str ''div'')
                     (Arr [Num 0, Str [], Bool False, Null, Undefined, Str ''x''] [])) \<noteq> [])
      \<and> (truthy (spec_properties
                     (Arr [Num 0, Str [], Bool False, Null, Undefined, Str ''x''] [])
                     [Arr [Num 1] [], Null])
           \<longrightarrow> typeof (spec_properties
                     (Arr [Num 0, Str [], Bool False, Null, Undefined, Str ''x''] [])
                     [Arr [Num 1] [], Null]) = ''object'')"
    by code_simp
  have a: "\<exists>v first' rest'.
      h (Str ''div'') (Arr [Num 0, Str [], Bool False, Null, Undefined, Str ''x''] [])
        [Arr [Num 1] [], Null] = Inr (v, first', rest')
      \<and> get_prop v ''children'' = Inr (Arr [Num 0, Str [], Bool False, Str ''x'', Num 1] [])"
    using h_children_or_raises [of "Arr [Num 0, Str [], Bool False, Null, Undefined, Str ''x''] []"
        "[Arr [Num 1] [], Null]" "Str ''div''"]
    by (simp only: if_P [OF c2] s)
  have b: "h (Str ''div'') (Str ''hello'') [Str ''world''] = Inl TypeError"
    using h_children_or_raises [of "Str ''hello''" "[Str ''world'']" "Str ''div''"] c
    by simp
  from a b c e s show ?thesis by blast
qed

subsection \<open>C5: className\<close>

text \<open>
  C5. For every selector with classes and every explicit properties map \<open>ps\<close>,
  \<open>h(selector, ps, ...rest)\<close> returns a node whose \<open>properties.className\<close> is the
  classes of the selector, in selector order, followed by the \<open>className\<close> of \<open>ps\<close> if
  it has one, joined by a space (as \<open>join\<close> does it); the node's properties have no
  \<open>class\<close> key, so that where both \<open>class\<close> and \<open>className\<close> were supplied the
  \<open>className\<close> is the one that is kept. An explicit properties map is an object that
  is not taken for a node.
\<close>

theorem h_className:
  assumes "\<not> spec_is_vnode (Obj ps)"
    and "selector_classes (tokens selector) \<noteq> []"
    and "classes = map Str (selector_classes (tokens selector)) @
                   (case map_of ps ''className'' of None \<Rightarrow> [] | Some c \<Rightarrow> [c])"
  shows "\<exists>v ps'. h selector (Obj ps) rest = Inr (v, Obj ps', rest)
           \<and> get_prop v ''properties'' = Inr (Obj ps')
           \<and> map_of ps' ''className'' = Some (Str (js_join '' '' classes))
           \<and> ''class'' \<notin> fst ` set ps'"
proof -
  from assms(2) have "tokens selector \<noteq> []"
    by (auto simp: selector_classes_def)
  then have m: "matchSelector selector = Inr (Some (tokens selector))"
    by (rule tokens_matchSelector)
  have n: "classes \<noteq> []" using assms(2,3) by simp
  have cl: "all_classes (tokens selector) ps = classes"
    by (simp add: all_classes_def assms(3))
  have "map_of (built_props (tokens selector) ps) ''className'' =
          Some (Str (js_join '' '' classes))"
    by (simp add: built_props_def cl className_with_className [OF n])
  moreover have "''class'' \<notin> fst ` set (built_props (tokens selector) ps)"
    by (simp add: built_props_def cl class_with_className [OF n])
  ultimately show ?thesis
    using h_Obj_closed [OF assms(1) m, of rest] by (simp add: get_prop_vnode)
qed

text \<open>
  C5 at \<open>h(".foo", {className: "bar"})\<close>, where the \<open>className\<close> is \<open>foo bar\<close>, and at
  \<open>h(".foo", {class: "a", className: "bar"})\<close>, where the node's properties are
  \<open>{className: "foo bar"}\<close>.
\<close>

theorem h_className_witness:
  "\<not> spec_is_vnode (Obj [(''className'', Str ''bar'')])
   \<and> \<not> spec_is_vnode (Obj [(''class'', Str ''a''), (''className'', Str ''bar'')])
   \<and> selector_classes (tokens (Str ''.foo'')) = [''foo'']
   \<and> js_join '' '' [Str ''foo'', Str ''bar''] = ''foo bar''
   \<and> h (Str ''.foo'') (Obj [(''className'', Str ''bar'')]) []
       = Inr (vnode ''DIV'' (Obj [(''className'', Str ''foo bar'')]) [],
              Obj [(''className'', Str ''foo bar'')], [])
   \<and> h (Str ''.foo'') (Obj [(''class'', Str ''a''), (''className'', Str ''bar'')]) []
       = Inr (vnode ''DIV'' (Obj [(''className'', Str ''foo bar'')]) [],
              Obj [(''className'', Str ''foo bar'')], [])"
proof -
  have a1: "\<not> spec_is_vnode (Obj [(''className'', Str ''bar'')])"
    by simp
  have a2: "\<not> spec_is_vnode (Obj [(''class'', Str ''a''), (''className'', Str ''bar'')])"
    by simp
  have t: "selector_classes (tokens (Str ''.foo'')) = [''foo'']"
    by code_simp
  have b: "selector_classes (tokens (Str ''.foo'')) \<noteq> []"
    by (simp add: t)
  have c1: "[Str ''foo'', Str ''bar''] = map Str (selector_classes (tokens (Str ''.foo''))) @
             (case map_of [(''className'', Str ''bar'')] ''className''
              of None \<Rightarrow> [] | Some c \<Rightarrow> [c])"
    by (simp add: t)
  have c2: "[Str ''foo'', Str ''bar''] = map Str (selector_classes (tokens (Str ''.foo''))) @
             (case map_of [(''class'', Str ''a''), (''className'', Str ''bar'')] ''className''
              of None \<Rightarrow> [] | Some c \<Rightarrow> [c])"
    by (simp add: t)
  have j: "js_join '' '' [Str ''foo'', Str ''bar''] = ''foo bar''"
    by code_simp
  have e1: "h (Str ''.foo'') (Obj [(''className'', Str ''bar'')]) []
       = Inr (vnode ''DIV'' (Obj [(''className'', Str ''foo bar'')]) [],
              Obj [(''className'', Str ''foo bar'')], [])"
    by code_simp
  have e2: "h (Str ''.foo'') (Obj [(''class'', Str ''a''), (''className'', Str ''bar'')]) []
       = Inr (vnode ''DIV'' (Obj [(''className'', Str ''foo bar'')]) [],
              Obj [(''className'', Str ''foo bar'')], [])"
    by code_simp
  from h_className [OF a1 b c1, of "[]"] h_className [OF a2 b c2, of "[]"] a1 a2 t j e1 e2
  show ?thesis by blast
qed

subsection \<open>C6: the SVG namespace\<close>

text \<open>
  C6. \<open>h("svg:circle")\<close> is a node with tag \<open>circle\<close>, case kept, whose
  \<open>properties.xmlns\<close> is \<open>http://www.w3.org/2000/svg\<close>; \<open>h("svg")\<close> is a node with
  tag \<open>svg\<close> and the same namespace.
\<close>

theorem h_svg_namespace:
  "h (Str ''svg:circle'') Undefined [] =
     Inr (vnode ''circle'' (Obj [(''xmlns'', Str ''http://www.w3.org/2000/svg'')]) [],
          Undefined, [])
   \<and> h (Str ''svg'') Undefined [] =
     Inr (vnode ''svg'' (Obj [(''xmlns'', Str ''http://www.w3.org/2000/svg'')]) [],
          Undefined, [])"
  by code_simp

subsection \<open>C7: selectors without a tag token\<close>

text \<open>
  C7. For a selector string \<open>s\<close> without a tag token, \<open>h(s)\<close> should have the tag
  \<open>DIV\<close>. It has when \<open>s\<close> is empty or has some token. When \<open>s\<close> is not empty and
  has no token at all, as \<open>"!!!"\<close>, the call raises a TypeError instead.
\<close>

theorem h_no_tag_token:
  assumes "filter is_tag (match_all s) = []"
  shows "(s \<noteq> [] \<and> match_all s = [] \<longrightarrow> h (Str s) Undefined [] = Inl TypeError)
       \<and> (s = [] \<or> match_all s \<noteq> [] \<longrightarrow>
            (\<exists>p. h (Str s) Undefined [] = Inr (vnode ''DIV'' p [], Undefined, [])))"
proof (intro conjI impI)
  assume "s \<noteq> [] \<and> match_all s = []"
  then have "matchSelector (Str s) = Inr None"
    by (simp add: matchSelector_def)
  then show "h (Str s) Undefined [] = Inl TypeError"
    by (simp add: h_Undefined createVNode_def)
next
  assume "s = [] \<or> match_all s \<noteq> []"
  then have m: "matchSelector (Str s) = Inr (Some (match_all s))"
    by (auto simp: matchSelector_def split: list.splits)
  have t: "built_tag (match_all s) [] = ''DIV''"
    using assms no_tag_no_svg [OF assms]
    by (simp add: built_tag_def with_xmlns_def lookup_def selector_tag_def last_or_Nil
        toUpperCase_div)
  have "createVNode (Str s) (Obj []) [] =
          Inr (vnode ''DIV'' (Obj (built_props (match_all s) [])) [],
               Obj (built_props (match_all s) []))"
    using createVNode_object [OF _ m, of "Obj []" "[]"] by (simp add: t children_of_def)
  then have "h (Str s) Undefined [] =
               Inr (vnode ''DIV'' (Obj (built_props (match_all s) [])) [], Undefined, [])"
    by (simp add: h_Undefined createVNode_falsy)
  then show "\<exists>p. h (Str s) Undefined [] = Inr (vnode ''DIV'' p [], Undefined, [])"
    by blast
qed

text \<open>
  C7 at the selector \<open>"!!!"\<close>, where the call raises, and at \<open>"#foo.bar"\<close>, where the
  tag is \<open>DIV\<close>.
\<close>

theorem h_no_tag_token_witness:
  "filter is_tag (match_all ''!!!'') = [] \<and> ''!!!'' \<noteq> [] \<and> match_all ''!!!'' = []
   \<and> h (Str ''!!!'') Undefined [] = Inl TypeError
   \<and> filter is_tag (match_all ''#foo.bar'') = [] \<and> match_all ''#foo.bar'' \<noteq> []
   \<and> h (Str ''#foo.bar'') Undefined []
       = Inr (vnode ''DIV'' (Obj [(''id'', Str ''foo''), (''className'', Str ''bar'')]) [],
              Undefined, [])"
proof -
  have a: "filter is_tag (match_all ''!!!'') = []" by code_simp
  have b: "''!!!'' \<noteq> [] \<and> match_all ''!!!'' = []" by code_simp
  have c: "filter is_tag (match_all ''#foo.bar'') = []" by code_simp
  have d: "match_all ''#foo.bar'' \<noteq> []" by code_simp
  have e: "h (Str ''#foo.bar'') Undefined []
       = Inr (vnode ''DIV'' (Obj [(''id'', Str ''foo''), (''className'', Str ''bar'')]) [],
              Undefined, [])"
    by code_simp
  from h_no_tag_token [OF a] h_no_tag_token [OF c] a b c d e show ?thesis by blast
qed

subsection \<open>C8: the case of the tag\<close>

text \<open>
  C8, as stated: if \<open>properties.xmlns\<close> is present in the node, the tag keeps the case
  the caller gave. It does not for \<open>h("test", {xmlns: ""})\<close>: the key \<open>xmlns\<close> is
  present, its value is falsy, and the tag is \<open>TEST\<close>.
\<close>

theorem h_tag_case_counterexample:
  "h (Str ''test'') (Obj [(''xmlns'', Str [])]) []
     = Inr (vnode ''TEST'' (Obj [(''xmlns'', Str [])]) [], Obj [(''xmlns'', Str [])], [])
   \<and> js_in ''xmlns'' (Obj [(''xmlns'', Str [])]) = Inr True
   \<and> ''TEST'' \<noteq> ''test''"
  by code_simp

text \<open>
  C8, amended. In every node that \<open>h\<close> returns, the tag is the tag name derived from the
  selector, exactly as given, if \<open>properties.xmlns\<close> is truthy, and its upper-cased form
  if \<open>properties.xmlns\<close> is absent or falsy.
\<close>

theorem h_tag_case:
  assumes "h selector first rest = Inr (v, first', rest')"
    and "tag = selector_tag (tokens (effective_selector selector first))"
  shows "\<exists>p x. get_prop v ''properties'' = Inr p \<and> get_prop p ''xmlns'' = Inr x
           \<and> get_prop v ''tagName'' = Inr (Str (if truthy x then tag else toUpperCase tag))"
proof -
  define parts where "parts = tokens (effective_selector selector first)"
  from h_calls_createVNode [OF assms(1)] obtain q
    where c: "createVNode (effective_selector selector first) (spec_properties first rest)
             (spec_children_arguments first rest) = Inr (v, q)" by blast
  define p0 where "p0 = (if truthy (spec_properties first rest)
                         then spec_properties first rest else Obj [])"
  have o: "is_object p0"
    using createVNode_Inr [OF c] by (simp add: p0_def)
  have v: "v = vnode (built_tag parts (props_of p0)) (map_props (built_props parts) p0)
                 (children_of (spec_children_arguments first rest))"
    using createVNode_Inr [OF c]
    by (cases "truthy (spec_properties first rest)") (simp_all add: p0_def parts_def)
  have x: "get_prop (map_props (built_props parts) p0) ''xmlns''
             = Inr (lookup (with_xmlns parts (props_of p0)) ''xmlns'')"
    using o by (simp add: get_prop_object props_of_map_props lookup_built_props_xmlns)
  show ?thesis
    unfolding v get_prop_vnode using x
    by (auto simp: built_tag_def assms(2) parts_def)
qed

text \<open>
  The amended C8 at \<open>h("test", {xmlns: "http://www.w3.org/XML/1998/namespace"})\<close>, the
  call of the unit test: the tag is \<open>test\<close>.
\<close>

theorem h_tag_case_witness:
  "h (Str ''test'') (Obj [(''xmlns'', Str ''http://www.w3.org/XML/1998/namespace'')]) []
     = Inr (vnode ''test'' (Obj [(''xmlns'', Str ''http://www.w3.org/XML/1998/namespace'')]) [],
            Obj [(''xmlns'', Str ''http://www.w3.org/XML/1998/namespace'')], [])
   \<and> selector_tag (tokens (effective_selector (Str ''test'')
        (Obj [(''xmlns'', Str ''http://www.w3.org/XML/1998/namespace'')]))) = ''test''
   \<and> get_prop (vnode ''test'' (Obj [(''xmlns'', Str ''http://www.w3.org/XML/1998/namespace'')]) [])
        ''tagName'' = Inr (Str ''test'')"
proof -
  have e: "h (Str ''test'') (Obj [(''xmlns'', Str ''http://www.w3.org/XML/1998/namespace'')]) []
     = Inr (vnode ''test'' (Obj [(''xmlns'', Str ''http://www.w3.org/XML/1998/namespace'')]) [],
            Obj [(''xmlns'', Str ''http://www.w3.org/XML/1998/namespace'')], [])"
    by code_simp
  have t: "''test'' = selector_tag (tokens (effective_selector (Str ''test'')
        (Obj [(''xmlns'', Str ''http://www.w3.org/XML/1998/namespace'')])))"
    by code_simp
  from h_tag_case [OF e t] e t show ?thesis
    by (simp add: get_prop_vnode)
qed

subsection \<open>C9: the factories\<close>

text \<open>
  C9. For every HTML tag name \<open>t\<close>, \<open>DOM.t(...)\<close> should equal \<open>h(t, ...)\<close>. For
  \<open>title\<close>, which is an SVG tag name as well, it does not: the second \<open>forEach\<close>
  replaces the HTML factory, so that \<open>DOM.title()\<close> is \<open>h("svg:title")\<close>, a node
  \<open>title\<close> in the SVG namespace, while \<open>h("title")\<close> is a node \<open>TITLE\<close> without
  namespace.
\<close>

theorem DOM_title_is_svg:
  "''title'' \<in> set HTML_TAG_NAMES
   \<and> call_DOM ''title'' Undefined []
      = Inr (vnode ''title'' (Obj [(''xmlns'', Str ''http://www.w3.org/2000/svg'')]) [],
             Undefined, [])
   \<and> h (Str ''title'') Undefined [] = Inr (vnode ''TITLE'' (Obj []) [], Undefined, [])"
  by code_simp

subsection \<open>C10: a node as first argument\<close>

text \<open>
  C10, as stated: when \<open>first\<close> is an object with both a \<open>tagName\<close> and a
  \<open>properties\<close> key, the properties of the resulting node are empty. They are not for
  \<open>h("#foo", first)\<close>: the node's properties are \<open>{id: "foo"}\<close>.
\<close>

theorem h_vnode_first_counterexample:
  "spec_is_vnode (Obj [(''tagName'', Str ''SPAN''), (''properties'', Obj []),
                       (''children'', Arr [] [])])
   \<and> h (Str ''#foo'') (Obj [(''tagName'', Str ''SPAN''), (''properties'', Obj []),
                             (''children'', Arr [] [])]) []
     = Inr (vnode ''DIV'' (Obj [(''id'', Str ''foo'')])
              [Obj [(''tagName'', Str ''SPAN''), (''properties'', Obj []),
                    (''children'', Arr [] [])]],
            Obj [(''tagName'', Str ''SPAN''), (''properties'', Obj []),
                 (''children'', Arr [] [])], [])
   \<and> Obj [(''id'', Str ''foo'')] \<noteq> Obj []"
  by code_simp

text \<open>
  C10, amended. When \<open>first\<close> is a plain object with both a \<open>tagName\<close> and a
  \<open>properties\<close> key, \<open>first\<close> is a child and never the properties map: if
  \<open>h(selector)\<close> alone returns a node, whose properties hold nothing but what the
  selector gives (\<open>xmlns\<close>, \<open>id\<close>, \<open>className\<close>), then \<open>h(selector, first, ...rest)\<close>
  returns that node with \<open>first\<close> as \<open>children[0]\<close>, followed by the flattened
  \<open>rest\<close>, and leaves \<open>first\<close> and \<open>rest\<close> as they were.
\<close>

theorem h_vnode_first:
  assumes "spec_is_vnode (Obj ps)"
    and "h selector Undefined [] = Inr (n, first', rest')"
  shows "\<exists>t qs. n = vnode t (Obj qs) []
           \<and> fst ` set qs \<subseteq> {''xmlns'', ''id'', ''className''}
           \<and> h selector (Obj ps) rest =
               Inr (vnode t (Obj qs) (Obj ps # spec_children rest), Obj ps, rest)"
proof -
  define parts where "parts = tokens selector"
  have m: "matchSelector selector = Inr (Some parts)"
    using h_Undefined_returns [OF assms(2)] by (simp add: parts_def)
  from h_Undefined_closed [OF m] assms(2)
  have "n = vnode (built_tag parts []) (Obj (built_props parts [])) []" by simp
  with h_vnode_Obj_closed [OF assms(1) m, of rest] keys_built_props_Nil [of parts]
  show ?thesis unfolding spec_children_eq by blast
qed

text \<open>
  The amended C10 at \<open>h("#foo", first, null, "x")\<close> with \<open>first\<close> the node of an empty
  \<open>SPAN\<close>.
\<close>

theorem h_vnode_first_witness:
  "spec_is_vnode (Obj [(''tagName'', Str ''SPAN''), (''properties'', Obj []),
                       (''children'', Arr [] [])])
   \<and> h (Str ''#foo'') Undefined []
     = Inr (vnode ''DIV'' (Obj [(''id'', Str ''foo'')]) [], Undefined, [])
   \<and> h (Str ''#foo'') (Obj [(''tagName'', Str ''SPAN''), (''properties'', Obj []),
                             (''children'', Arr [] [])]) [Null, Str ''x'']
     = Inr (vnode ''DIV'' (Obj [(''id'', Str ''foo'')])
              [Obj [(''tagName'', Str ''SPAN''), (''properties'', Obj []),
                    (''children'', Arr [] [])], Str ''x''],
            Obj [(''tagName'', Str ''SPAN''), (''properties'', Obj []),
                 (''children'', Arr [] [])], [Null, Str ''x''])"
proof -
  have a: "spec_is_vnode (Obj [(''tagName'', Str ''SPAN''), (''properties'', Obj []),
                       (''children'', Arr [] [])])"
    by simp
  have u: "h (Str ''#foo'') Undefined []
     = Inr (vnode ''DIV'' (Obj [(''id'', Str ''foo'')]) [], Undefined, [])"
    by code_simp
  have e: "h (Str ''#foo'') (Obj [(''tagName'', Str ''SPAN''), (''properties'', Obj []),
                             (''children'', Arr [] [])]) [Null, Str ''x'']
     = Inr (vnode ''DIV'' (Obj [(''id'', Str ''foo'')])
              [Obj [(''tagName'', Str ''SPAN''), (''properties'', Obj []),
                    (''children'', Arr [] [])], Str ''x''],
            Obj [(''tagName'', Str ''SPAN''), (''properties'', Obj []),
                 (''children'', Arr [] [])], [Null, Str ''x''])"
    by code_simp
  from h_vnode_first [OF a u, of "[Null, Str ''x'']"] a u e show ?thesis by blast
qed

end
